theory Spec2Isabelle
  imports Complex_Main
begin

section \<open>Python values seen by the wallet\<close>

text \<open>
  The wallet script (\<^verbatim>\<open>bsv_wallet.py\<close>) is glue around three libraries: \<^verbatim>\<open>bsvlib\<close>
  (balance, transaction building), \<^verbatim>\<open>requests\<close> (HTTP) and \<^verbatim>\<open>decimal\<close>. The
  libraries are not part of the script; what they answer is a parameter of the model
  (the record \<open>world\<close> below), and every function of the script is a function of
  that record. The arithmetic of \<^verbatim>\<open>decimal\<close> at the precision the script sets is
  written out. A string is a list of code points below 256.
\<close>

datatype py_float = Finite rat | Infinite | NaN

datatype py_value =
    PNone
  | PBool bool
  | PInt int
  | PFloat py_float
  | PStr string
  | PList "py_value list"
  | PDict "(string \<times> py_value) list"

text \<open>Exceptions that \<^verbatim>\<open>except Exception\<close> catches; the libraries' own carry a name.\<close>

datatype py_error = TypeError | AttributeError | LibraryError string

text \<open>Truth value of a Python object, as \<^verbatim>\<open>if data:\<close> and \<^verbatim>\<open>txid and ...\<close> test it.\<close>

fun truthy :: "py_value \<Rightarrow> bool" where
  "truthy PNone = False"
| "truthy (PBool b) = b"
| "truthy (PInt i) = (i \<noteq> 0)"
| "truthy (PFloat f) = (f \<noteq> Finite 0)"
| "truthy (PStr s) = (s \<noteq> [])"
| "truthy (PList xs) = (xs \<noteq> [])"
| "truthy (PDict kvs) = (kvs \<noteq> [])"

text \<open>\<^verbatim>\<open>len(x)\<close>: defined on strings, lists and dicts, a TypeError on anything else.
  The pairs of a \<open>PDict\<close> have distinct keys, as a Python dict has.\<close>

fun py_len :: "py_value \<Rightarrow> py_error + nat" where
  "py_len (PStr s) = Inr (length s)"
| "py_len (PList xs) = Inr (length xs)"
| "py_len (PDict kvs) = Inr (length kvs)"
| "py_len PNone = Inl TypeError"
| "py_len (PBool b) = Inl TypeError"
| "py_len (PInt i) = Inl TypeError"
| "py_len (PFloat f) = Inl TypeError"

text \<open>\<^verbatim>\<open>isinstance(x, dict)\<close>.\<close>

fun is_dict :: "py_value \<Rightarrow> bool" where
  "is_dict (PDict kvs) = True"
| "is_dict v = False"

text \<open>\<^verbatim>\<open>d.get(key, default)\<close> on a dict.\<close>

definition dict_get :: "(string \<times> py_value) list \<Rightarrow> string \<Rightarrow> py_value \<Rightarrow> py_value" where
  "dict_get kvs key dflt = (case map_of kvs key of Some v \<Rightarrow> v | None \<Rightarrow> dflt)"

subsection \<open>String methods\<close>

text \<open>\<^verbatim>\<open>str.lower()\<close> on code points below 256: A-Z and the accented capitals
  (192-222 without the multiplication sign 215) move up by 32.\<close>

definition lower_char :: "char \<Rightarrow> char" where
  "lower_char c =
     (let n = (of_char c :: nat)
      in if (65 \<le> n \<and> n \<le> 90) \<or> (192 \<le> n \<and> n \<le> 222 \<and> n \<noteq> 215)
         then char_of (n + 32) else c)"

definition lower :: "string \<Rightarrow> string" where
  "lower s = map lower_char s"

text \<open>Whitespace for \<^verbatim>\<open>str.strip()\<close>: 9-13, 28-32, 133 and 160.\<close>

definition is_space :: "char \<Rightarrow> bool" where
  "is_space c =
     (let n = (of_char c :: nat)
      in (9 \<le> n \<and> n \<le> 13) \<or> (28 \<le> n \<and> n \<le> 32) \<or> n = 133 \<or> n = 160)"

definition strip :: "string \<Rightarrow> string" where
  "strip s = rev (dropWhile is_space (rev (dropWhile is_space s)))"

text \<open>\<^verbatim>\<open>s.replace('"', '')\<close>: every double quote (code point 34) is dropped.\<close>

definition remove_quotes :: "string \<Rightarrow> string" where
  "remove_quotes s = filter (\<lambda>c. c \<noteq> CHR 0x22) s"

subsection \<open>Decimal arithmetic at the script's precision\<close>

text \<open>
  The script sets \<^verbatim>\<open>getcontext().prec = 8\<close>: every arithmetic result is rounded to
  eight significant digits, half to even. A finite \<^verbatim>\<open>Decimal\<close> is a sign, a
  coefficient and an exponent of ten; the constructor \<^verbatim>\<open>Decimal(text)\<close> is exact and
  is not rounded.
\<close>

record decimal =
  negative :: bool
  coefficient :: nat
  exponent :: int

text \<open>The number of decimal digits of a coefficient.\<close>

fun num_digits :: "nat \<Rightarrow> nat" where
  "num_digits n = (if n < 10 then 1 else Suc (num_digits (n div 10)))"

declare num_digits.simps [simp del]

text \<open>Dropping the last \<open>d\<close> digits of a coefficient, rounding half to even.\<close>

definition round_half_even :: "nat \<Rightarrow> nat \<Rightarrow> nat" where
  "round_half_even c d =
     (let q = c div 10 ^ d; r = c mod 10 ^ d
      in if 2 * r > 10 ^ d \<or> (2 * r = 10 ^ d \<and> odd q) then q + 1 else q)"

text \<open>Rounding a coefficient and exponent to at most eight digits.\<close>

definition prec8 :: "nat \<Rightarrow> int \<Rightarrow> nat \<times> int" where
  "prec8 c e =
     (let n = num_digits c
      in if n \<le> 8 then (c, e)
         else (let d = n - 8; q = round_half_even c d
               in if q = 10 ^ 8 then (10 ^ 7, e + int d + 1) else (q, e + int d)))"

text \<open>\<^verbatim>\<open>x * 100_000_000\<close>: the exact product, rounded; a result beyond the largest
  exponent of the context (999999) raises \<^verbatim>\<open>Overflow\<close>. (A result below the smallest
  exponent is rounded further towards zero without raising; its integer part is zero
  either way.)\<close>

definition times_100000000 :: "decimal \<Rightarrow> py_error + decimal" where
  "times_100000000 x =
     (let (c, e) = prec8 (coefficient x * 100000000) (exponent x)
      in if c \<noteq> 0 \<and> e + int (num_digits c) - 1 > 999999
         then Inl (LibraryError ''Overflow'')
         else Inr \<lparr>negative = negative x, coefficient = c, exponent = e\<rparr>)"

text \<open>\<^verbatim>\<open>int(x)\<close>: the integer part, towards zero.\<close>

definition int_of_decimal :: "decimal \<Rightarrow> int" where
  "int_of_decimal x =
     (let m = (if 0 \<le> exponent x then int (coefficient x) * 10 ^ nat (exponent x)
               else int (coefficient x) div 10 ^ nat (- exponent x))
      in if negative x then - m else m)"

text \<open>\<^verbatim>\<open>int(x * 100_000_000)\<close> for the finite decimal \<open>x\<close> that \<^verbatim>\<open>Decimal(amount_str)\<close>
  gave.\<close>

definition sats_of_decimal :: "decimal \<Rightarrow> py_error + int" where
  "sats_of_decimal x =
     (case times_100000000 x of Inl e \<Rightarrow> Inl e | Inr p \<Rightarrow> Inr (int_of_decimal p))"

section \<open>The outside world\<close>

text \<open>An HTTP response as the script reads it: \<^verbatim>\<open>r.status_code\<close>, \<^verbatim>\<open>r.text\<close> and
  \<^verbatim>\<open>r.json()\<close>, which raises or gives a value.\<close>

datatype json_result = JsonRaises | Json py_value

record response =
  status_code :: int
  r_text :: string
  json :: json_result

text \<open>\<^verbatim>\<open>requests.post\<close>/\<^verbatim>\<open>requests.get\<close> raise (timeout, connection error) or respond.\<close>

datatype http_result = RequestRaises py_error | Responds response

text \<open>The two calls of \<^verbatim>\<open>bsv_wallet.create_transaction\<close> in the script:
  \<^verbatim>\<open>outputs=[(to, sats)], fee=f\<close> and \<^verbatim>\<open>outputs=[], pushdatas=[data], combine=True\<close>.\<close>

datatype tx_call = PaymentTx string int "int option" | DataTx string

record world =
  get_balance :: "py_error + int"
    \<comment> \<open>\<^verbatim>\<open>bsv_wallet.get_balance(refresh=True)\<close>, a query to the chain provider\<close>
  decimal_sats :: "string \<Rightarrow> py_error + int"
    \<comment> \<open>\<^verbatim>\<open>int(Decimal(s) * 100_000_000)\<close>; for a text that \<^verbatim>\<open>Decimal\<close> reads as the
        finite decimal \<open>x\<close> it is \<open>sats_of_decimal x\<close>\<close>
  create_transaction :: "tx_call \<Rightarrow> py_error + string"
    \<comment> \<open>the call followed by \<^verbatim>\<open>tx.hex()\<close>\<close>
  input_line :: "py_error + string"
    \<comment> \<open>\<^verbatim>\<open>input(...)\<close> at the confirmation prompt\<close>
  post_taal :: "string \<Rightarrow> string \<Rightarrow> http_result"
    \<comment> \<open>POST to TAAL with an API key and the raw transaction\<close>
  post_woc :: "string \<Rightarrow> http_result"
    \<comment> \<open>POST of the raw transaction to WhatsOnChain\<close>
  get_woc :: "string \<Rightarrow> http_result"
    \<comment> \<open>GET of a WhatsOnChain endpoint\<close>
  py_repr :: "py_value \<Rightarrow> string"
    \<comment> \<open>\<^verbatim>\<open>str(v)\<close> of a value that is not a string\<close>
  usd_value :: "int \<Rightarrow> py_value \<Rightarrow> py_error option"
    \<comment> \<open>the exception that \<^verbatim>\<open>Decimal(bal_sats) / 100_000_000 * Decimal(price)\<close> raises,
        if any (in \<^verbatim>\<open>Decimal(price)\<close> or in the product)\<close>

text \<open>\<^verbatim>\<open>str(v)\<close>: a string is its own \<open>str\<close>.\<close>

definition py_str :: "world \<Rightarrow> py_value \<Rightarrow> string" where
  "py_str w v = (case v of PStr s \<Rightarrow> s | _ \<Rightarrow> py_repr w v)"

section \<open>What an operation does: a trace of events\<close>

text \<open>The lines the script prints (separator lines left out; the lines of one summary
  block are one message).\<close>

datatype message =
    BroadcastingViaTaal
  | TaalFailedTryingWoc
  | BroadcastFailedWith py_error
  | WalletLine
  | StatusLines int py_value
  | ErrorFetchingBalance py_error
  | PreparingData
  | InsufficientFundsForFee
  | DataSummary string nat rat
  | DataWritten py_value
  | DataError py_error
  | Preparing
  | BalanceTooLow
  | CalculatingMax int
  | InsufficientFunds
  | TxSummary string int nat
  | TransactionSuccessful py_value
  | BroadcastFailed
  | Cancelled
  | TransactionFailed py_error

datatype event =
    Say message
  | QueryBalance
  | BuildTx tx_call
  | AskConfirm
  | PostTaal string string
  | PostWoc string
  | GetWoc string

section \<open>NetworkProvider\<close>

definition TAAL_KEYS :: "string list" where
  "TAAL_KEYS = [''mainnet_3b1bf0f0d550275f1ba8676c1e224fc1'',
                ''mainnet_7bf481e9cd46f48c44a71de1b326bea4'']"

text \<open>\<^verbatim>\<open>r.raise_for_status()\<close> raises on a status from 400 to 599.\<close>

definition raises_for_status :: "response \<Rightarrow> bool" where
  "raises_for_status r = (400 \<le> status_code r \<and> status_code r < 600)"

definition HTTPError :: py_error where
  "HTTPError = LibraryError ''HTTPError''"

text \<open>\<^verbatim>\<open>get_json\<close>: the decoded body, or None on any exception.\<close>

definition get_json :: "world \<Rightarrow> string \<Rightarrow> event list \<times> py_value" where
  "get_json w endpoint =
     ([GetWoc endpoint],
      case get_woc w endpoint of
        RequestRaises e \<Rightarrow> PNone
      | Responds r \<Rightarrow>
          if raises_for_status r then PNone
          else (case json r of JsonRaises \<Rightarrow> PNone | Json v \<Rightarrow> v))"

text \<open>\<^verbatim>\<open>get_price\<close>: \<^verbatim>\<open>data.get('rate', '0.00')\<close> when the data is truthy (an
  AttributeError when it is not a dict), the string \<^verbatim>\<open>'0.00'\<close> otherwise.\<close>

definition get_price :: "world \<Rightarrow> event list \<times> (py_error + py_value)" where
  "get_price w =
     (let (evs, data) = get_json w ''exchangerate''
      in (evs,
          if truthy data
          then (case data of
                  PDict kvs \<Rightarrow> Inr (dict_get kvs ''rate'' (PStr ''0.00''))
                | _ \<Rightarrow> Inl AttributeError)
          else Inr (PStr ''0.00'')))"

text \<open>What the TAAL branch returns on status 200: the \<^verbatim>\<open>txid\<close> field of a dict (else
  its \<^verbatim>\<open>result\<close> field, else None), \<^verbatim>\<open>str(resp)\<close> of any other decoded value, and the
  raw text when decoding raises.\<close>

definition taal_answer :: "world \<Rightarrow> response \<Rightarrow> py_value" where
  "taal_answer w r =
     (case json r of
        JsonRaises \<Rightarrow> PStr (r_text r)
      | Json resp \<Rightarrow>
          (case resp of
             PDict kvs \<Rightarrow> dict_get kvs ''txid'' (dict_get kvs ''result'' PNone)
           | _ \<Rightarrow> PStr (py_str w resp)))"

text \<open>The loop over \<^verbatim>\<open>TAAL_KEYS\<close>: \<open>Some v\<close> when an iteration returns \<open>v\<close>, \<open>None\<close>
  when the loop runs out. A request that raises and a status other than 200 both go on
  to the next key.\<close>

fun taal_loop :: "world \<Rightarrow> string \<Rightarrow> string list \<Rightarrow> event list \<times> py_value option" where
  "taal_loop w raw_hex [] = ([], None)"
| "taal_loop w raw_hex (key # keys) =
     (case post_taal w key raw_hex of
        RequestRaises e \<Rightarrow>
          (let (evs, res) = taal_loop w raw_hex keys in (PostTaal key raw_hex # evs, res))
      | Responds r \<Rightarrow>
          if status_code r = 200 then ([PostTaal key raw_hex], Some (taal_answer w r))
          else (let (evs, res) = taal_loop w raw_hex keys in (PostTaal key raw_hex # evs, res)))"

text \<open>The WhatsOnChain fallback: the text without quotes, stripped; None when the
  request or \<^verbatim>\<open>raise_for_status\<close> raises.\<close>

definition woc_fallback :: "world \<Rightarrow> string \<Rightarrow> event list \<times> py_value" where
  "woc_fallback w raw_hex =
     (case post_woc w raw_hex of
        RequestRaises e \<Rightarrow> ([PostWoc raw_hex, Say (BroadcastFailedWith e)], PNone)
      | Responds r \<Rightarrow>
          if raises_for_status r
          then ([PostWoc raw_hex, Say (BroadcastFailedWith HTTPError)], PNone)
          else ([PostWoc raw_hex], PStr (strip (remove_quotes (r_text r)))))"

definition broadcast :: "world \<Rightarrow> string \<Rightarrow> event list \<times> py_value" where
  "broadcast w raw_hex =
     (case taal_loop w raw_hex TAAL_KEYS of
        (evs, Some v) \<Rightarrow> (Say BroadcastingViaTaal # evs, v)
      | (evs, None) \<Rightarrow>
          (let (evs', v) = woc_fallback w raw_hex
           in (Say BroadcastingViaTaal # evs @ Say TaalFailedTryingWoc # evs', v)))"

section \<open>WalletApp\<close>

text \<open>\<^verbatim>\<open>get_balance_sats\<close>: one query to the chain provider.\<close>

definition get_balance_sats :: "world \<Rightarrow> event list \<times> (py_error + int)" where
  "get_balance_sats w = ([QueryBalance], get_balance w)"

text \<open>The test \<^verbatim>\<open>txid and len(txid) > 20\<close> as a condition: a falsy value is false
  without \<open>len\<close> being called; \<open>len\<close> of a truthy number or bool raises.\<close>

definition looks_like_txid :: "py_value \<Rightarrow> py_error + bool" where
  "looks_like_txid txid =
     (if \<not> truthy txid then Inr False
      else (case py_len txid of Inl e \<Rightarrow> Inl e | Inr n \<Rightarrow> Inr (20 < n)))"

text \<open>The part both send operations share, from the prompt on: only the answer
  \<^verbatim>\<open>yes\<close> (in any case) broadcasts. An exception goes to the caller's handler.\<close>

definition confirm_and_broadcast ::
  "world \<Rightarrow> string \<Rightarrow> (py_value \<Rightarrow> message) \<Rightarrow> event list \<times> py_error option" where
  "confirm_and_broadcast w raw_hex success =
     (case input_line w of
        Inl e \<Rightarrow> ([AskConfirm], Some e)
      | Inr answer \<Rightarrow>
          if lower answer = ''yes''
          then (let (evs, txid) = broadcast w raw_hex
                in (case looks_like_txid txid of
                      Inl e \<Rightarrow> (AskConfirm # evs, Some e)
                    | Inr True \<Rightarrow> (AskConfirm # evs @ [Say (success txid)], None)
                    | Inr False \<Rightarrow> (AskConfirm # evs @ [Say BroadcastFailed], None)))
          else ([AskConfirm, Say Cancelled], None))"

text \<open>The handler of the enclosing \<^verbatim>\<open>try\<close>: one line when an exception arrives.\<close>

definition on_error :: "(py_error \<Rightarrow> message) \<Rightarrow> py_error option \<Rightarrow> event list" where
  "on_error handler err = (case err of None \<Rightarrow> [] | Some e \<Rightarrow> [Say (handler e)])"

text \<open>The fee line of the data summary: \<^verbatim>\<open>len(raw_hex)//2 * 0.5\<close>, a float; the product
  is exact for a size below \<open>2^53\<close>, so it is the rational \<open>size / 2\<close> there.\<close>

definition data_fee_shown :: "nat \<Rightarrow> rat" where
  "data_fee_shown size_bytes = of_nat size_bytes * (1 / 2)"

definition send_op_return :: "world \<Rightarrow> string \<Rightarrow> event list" where
  "send_op_return w data_string =
     Say PreparingData #
     (let (evs, bal) = get_balance_sats w
      in case bal of
           Inl e \<Rightarrow> evs @ [Say (DataError e)]
         | Inr bal \<Rightarrow>
             if bal < 1000 then evs @ [Say InsufficientFundsForFee]
             else (case create_transaction w (DataTx data_string) of
                     Inl e \<Rightarrow> evs @ [BuildTx (DataTx data_string), Say (DataError e)]
                   | Inr raw_hex \<Rightarrow>
                       (let size_bytes = length raw_hex div 2;
                            (evs', err) = confirm_and_broadcast w raw_hex DataWritten
                        in evs @ [BuildTx (DataTx data_string),
                                  Say (DataSummary data_string size_bytes (data_fee_shown size_bytes))]
                             @ evs' @ on_error DataError err)))"

definition is_max :: "string \<Rightarrow> bool" where
  "is_max amount_str = (lower amount_str \<in> set [''max'', ''all''])"

text \<open>The first half of \<^verbatim>\<open>build_and_send\<close>, up to the amount to send: it returns
  early (\<open>Return\<close>), raises (\<open>Raise\<close>) or goes on with the amount (\<open>Go\<close>).\<close>

datatype 'a step = Return "event list" | Raise "event list" py_error | Go "event list" 'a

definition send_amount :: "world \<Rightarrow> string \<Rightarrow> int \<Rightarrow> int step" where
  "send_amount w amount_str total_sats =
     (let fee_estimate = 500
      in if is_max amount_str
         then (let send_sats = total_sats - fee_estimate
               in if send_sats \<le> 0 then Return [Say BalanceTooLow]
                  else Go [Say (CalculatingMax send_sats)] send_sats)
         else (case decimal_sats w amount_str of
                 Inl e \<Rightarrow> Raise [] e
               | Inr send_sats \<Rightarrow> Go [] send_sats))"

definition build_and_send :: "world \<Rightarrow> string \<Rightarrow> string \<Rightarrow> event list" where
  "build_and_send w to_address amount_str =
     Say Preparing #
     (let (evs, total) = get_balance_sats w
      in case total of
           Inl e \<Rightarrow> evs @ [Say (TransactionFailed e)]
         | Inr total_sats \<Rightarrow>
             (case send_amount w amount_str total_sats of
                Return evs1 \<Rightarrow> evs @ evs1
              | Raise evs1 e \<Rightarrow> evs @ evs1 @ [Say (TransactionFailed e)]
              | Go evs1 send_sats \<Rightarrow>
                  if send_sats > total_sats then evs @ evs1 @ [Say InsufficientFunds]
                  else (let call = PaymentTx to_address send_sats
                                     (if is_max amount_str then Some 500 else None)
                        in case create_transaction w call of
                             Inl e \<Rightarrow> evs @ evs1 @ [BuildTx call, Say (TransactionFailed e)]
                           | Inr raw_hex \<Rightarrow>
                               (let (evs2, err) =
                                      confirm_and_broadcast w raw_hex TransactionSuccessful
                                in evs @ evs1
                                     @ [BuildTx call,
                                        Say (TxSummary to_address send_sats (length raw_hex div 2))]
                                     @ evs2 @ on_error TransactionFailed err))))"

text \<open>\<^verbatim>\<open>show_status\<close>: the balance, then the price; the two printed lines are one
  message holding the balance and the price they are computed from.\<close>

definition show_status :: "world \<Rightarrow> event list" where
  "show_status w =
     Say WalletLine #
     (let (evs, bal) = get_balance_sats w
      in case bal of
           Inl e \<Rightarrow> evs @ [Say (ErrorFetchingBalance e)]
         | Inr bal_sats \<Rightarrow>
             (let (evs1, price) = get_price w
              in case price of
                   Inl e \<Rightarrow> evs @ evs1 @ [Say (ErrorFetchingBalance e)]
                 | Inr price \<Rightarrow>
                     (case usd_value w bal_sats price of
                        Some e \<Rightarrow> evs @ evs1 @ [Say (ErrorFetchingBalance e)]
                      | None \<Rightarrow> evs @ evs1 @ [Say (StatusLines bal_sats price)])))"

section \<open>Reading a trace\<close>

datatype provider = TAAL | WhatsOnChain

text \<open>The broadcast requests of a trace, and the providers they went to.\<close>

fun is_post :: "event \<Rightarrow> bool" where
  "is_post (PostTaal key raw_hex) = True"
| "is_post (PostWoc raw_hex) = True"
| "is_post e = False"

definition posts :: "event list \<Rightarrow> event list" where
  "posts evs = filter is_post evs"

fun provider_of :: "event \<Rightarrow> provider" where
  "provider_of (PostWoc raw_hex) = WhatsOnChain"
| "provider_of e = TAAL"

definition contacted :: "event list \<Rightarrow> provider list" where
  "contacted evs = map provider_of (posts evs)"

text \<open>Every request that leaves the machine: the balance query, a GET, a POST.\<close>

fun is_network :: "event \<Rightarrow> bool" where
  "is_network QueryBalance = True"
| "is_network (GetWoc endpoint) = True"
| "is_network (PostTaal key raw_hex) = True"
| "is_network (PostWoc raw_hex) = True"
| "is_network e = False"

definition network_calls :: "event list \<Rightarrow> event list" where
  "network_calls evs = filter is_network evs"

fun is_build :: "event \<Rightarrow> bool" where
  "is_build (BuildTx call) = True"
| "is_build e = False"

text \<open>When the script takes an attempt as failed: for TAAL a request that raises or a
  status other than 200, for WhatsOnChain a request that raises or an error status.\<close>

fun taal_fails :: "http_result \<Rightarrow> bool" where
  "taal_fails (RequestRaises e) = True"
| "taal_fails (Responds r) = (status_code r \<noteq> 200)"

fun woc_fails :: "http_result \<Rightarrow> bool" where
  "woc_fails (RequestRaises e) = True"
| "woc_fails (Responds r) = raises_for_status r"

definition key1 :: string where
  "key1 = ''mainnet_3b1bf0f0d550275f1ba8676c1e224fc1''"

definition key2 :: string where
  "key2 = ''mainnet_7bf481e9cd46f48c44a71de1b326bea4''"

text \<open>The shape of a trace of either send operation: it stops before the prompt
  without a broadcast request (and a builder it called has raised), or it builds a
  transaction, prints the summary and goes through the prompt.\<close>

definition prompt_shape ::
  "world \<Rightarrow> (py_value \<Rightarrow> message) \<Rightarrow> (py_error \<Rightarrow> message) \<Rightarrow> event list \<Rightarrow> bool" where
  "prompt_shape w success handler tr =
     ((posts tr = [] \<and> AskConfirm \<notin> set tr
         \<and> (\<forall>call. BuildTx call \<in> set tr \<longrightarrow> (\<exists>e. create_transaction w call = Inl e)))
      \<or> (\<exists>pre call raw_hex summary.
            create_transaction w call = Inr raw_hex
            \<and> posts pre = [] \<and> AskConfirm \<notin> set pre \<and> filter is_build pre = []
            \<and> tr = pre @ BuildTx call # Say summary
                   # fst (confirm_and_broadcast w raw_hex success)
                   @ on_error handler (snd (confirm_and_broadcast w raw_hex success))))"

text \<open>The response the TAAL loop returns from: a 200 to the first key, or to the
  second after the first failed.\<close>

definition taal_returns :: "world \<Rightarrow> string \<Rightarrow> response \<Rightarrow> bool" where
  "taal_returns w raw_hex r =
     (post_taal w key1 raw_hex = Responds r \<and> status_code r = 200
      \<or> taal_fails (post_taal w key1 raw_hex)
        \<and> post_taal w key2 raw_hex = Responds r \<and> status_code r = 200)"

section \<open>Sample worlds\<close>

text \<open>Nothing answers: every library call raises, the user types \<^verbatim>\<open>no\<close>.\<close>

definition offline :: world where
  "offline =
     \<lparr>get_balance = Inl (LibraryError ''ConnectionError''),
      decimal_sats = (\<lambda>s. Inl (LibraryError ''InvalidOperation'')),
      create_transaction = (\<lambda>c. Inl (LibraryError ''InsufficientFunds'')),
      input_line = Inr ''no'',
      post_taal = (\<lambda>key raw_hex. RequestRaises (LibraryError ''Timeout'')),
      post_woc = (\<lambda>raw_hex. RequestRaises (LibraryError ''Timeout'')),
      get_woc = (\<lambda>endpoint. RequestRaises (LibraryError ''Timeout'')),
      py_repr = (\<lambda>v. ''None''),
      usd_value = (\<lambda>bal_sats price. if price = PStr ''0.00'' then None
                                     else Some (LibraryError ''InvalidOperation''))\<rparr>"

definition sample_txid :: string where
  "sample_txid = ''9f2c4e7a1b3d5f60718293a4b5c6d7e8f9011223344556677889900aabbccdde''"

text \<open>A 200 from TAAL whose body is a JSON object with a \<^verbatim>\<open>txid\<close>.\<close>

definition taal_ok :: response where
  "taal_ok = \<lparr>status_code = 200, r_text = ''{...}'',
              json = Json (PDict [(''txid'', PStr sample_txid)])\<rparr>"

text \<open>A wallet of 150000 satoshis; \<^verbatim>\<open>0.0005\<close> parses to 50000 satoshis, the builder
  answers three bytes of hex, the user types \<^verbatim>\<open>yes\<close>, TAAL refuses the first
  key and accepts the second.\<close>

definition online :: world where
  "online =
     \<lparr>get_balance = Inr 150000,
      decimal_sats = (\<lambda>s. if s = ''0.0005'' then Inr 50000
                          else Inl (LibraryError ''InvalidOperation'')),
      create_transaction = (\<lambda>c. Inr ''0100ff''),
      input_line = Inr ''yes'',
      post_taal = (\<lambda>key raw_hex.
         if key = key2 then Responds taal_ok
         else Responds \<lparr>status_code = 401, r_text = ''Unauthorized'', json = JsonRaises\<rparr>),
      post_woc = (\<lambda>raw_hex. RequestRaises (LibraryError ''Timeout'')),
      get_woc = (\<lambda>endpoint. RequestRaises (LibraryError ''Timeout'')),
      py_repr = (\<lambda>v. ''None''),
      usd_value = (\<lambda>bal_sats price. if price = PStr ''0.00'' then None
                                     else Some (LibraryError ''InvalidOperation''))\<rparr>"

text \<open>A text between double quotes.\<close>

definition quoted :: "string \<Rightarrow> string" where
  "quoted body = CHR 0x22 # body @ [CHR 0x22]"

text \<open>The world \<open>online\<close> with TAAL answering 200 to every key, with the given body
  that decodes to the given value.\<close>

definition taal_says :: "string \<Rightarrow> py_value \<Rightarrow> world" where
  "taal_says body v =
     online\<lparr>post_taal := (\<lambda>key raw_hex.
        Responds \<lparr>status_code = 200, r_text = body, json = Json v\<rparr>)\<rparr>"

text \<open>TAAL answering 200 with the body \<^verbatim>\<open>{"txid": 7}\<close>, and with the body \<^verbatim>\<open>7\<close>
  (\<^verbatim>\<open>str(7)\<close> is \<^verbatim>\<open>'7'\<close>).\<close>

definition taal_says_object_seven :: world where
  "taal_says_object_seven =
     taal_says (''{'' @ quoted ''txid'' @ '': 7}'') (PDict [(''txid'', PInt 7)])"

definition taal_says_seven :: world where
  "taal_says_seven = (taal_says ''7'' (PInt 7))\<lparr>py_repr := (\<lambda>v. ''7'')\<rparr>"

text \<open>The world \<open>online\<close> with TAAL answering 200 with a body that is not JSON.\<close>

definition taal_says_text :: "string \<Rightarrow> world" where
  "taal_says_text body =
     online\<lparr>post_taal := (\<lambda>key raw_hex.
        Responds \<lparr>status_code = 200, r_text = body, json = JsonRaises\<rparr>)\<rparr>"

text \<open>The body \<^verbatim>\<open>{"txid": "9f2c..."}\<close>.\<close>

definition txid_object_body :: string where
  "txid_object_body = ''{'' @ quoted ''txid'' @ '': '' @ quoted sample_txid @ ''}''"

text \<open>A wallet of 100.000002 BSV, a user who asks for 100.00000499 BSV: the text is
  the decimal \<open>10000000499 * 10^-8\<close>. The builder returns, since the funds cover what
  it is asked to pay.\<close>

definition rounding_world :: world where
  "rounding_world =
     online\<lparr>get_balance := Inr 10000000200,
            decimal_sats := (\<lambda>s.
              if s = ''100.00000499''
              then sats_of_decimal
                     \<lparr>negative = False, coefficient = 10000000499, exponent = - 8\<rparr>
              else Inl (LibraryError ''InvalidOperation''))\<rparr>"

text \<open>The world \<open>offline\<close> with WhatsOnChain answering 200 with the given text.\<close>

definition woc_says :: "string \<Rightarrow> world" where
  "woc_says body =
     offline\<lparr>post_woc := (\<lambda>raw_hex.
        Responds \<lparr>status_code = 200, r_text = body, json = JsonRaises\<rparr>)\<rparr>"

section \<open>Helper lemmas\<close>

lemma TAAL_KEYS_eq: "TAAL_KEYS = [key1, key2]"
  by (simp add: TAAL_KEYS_def key1_def key2_def)

lemma key1_neq_key2: "key1 \<noteq> key2"
  by (simp add: key1_def key2_def)

lemma posts_simps:
  "posts [] = []"
  "posts (e # evs) = (if is_post e then e # posts evs else posts evs)"
  "posts (evs @ evs') = posts evs @ posts evs'"
  by (simp_all add: posts_def)

text \<open>The TAAL loop over the two keys, by what each key is answered.\<close>

lemma taal_loop_first_ok:
  assumes "post_taal w key1 raw_hex = Responds r" and "status_code r = 200"
  shows "taal_loop w raw_hex TAAL_KEYS = ([PostTaal key1 raw_hex], Some (taal_answer w r))"
  using assms by (simp add: TAAL_KEYS_eq)

lemma taal_loop_second_ok:
  assumes "taal_fails (post_taal w key1 raw_hex)"
    and "post_taal w key2 raw_hex = Responds r" and "status_code r = 200"
  shows "taal_loop w raw_hex TAAL_KEYS
         = ([PostTaal key1 raw_hex, PostTaal key2 raw_hex], Some (taal_answer w r))"
  using assms by (cases "post_taal w key1 raw_hex") (simp_all add: TAAL_KEYS_eq)

lemma taal_loop_none_ok:
  assumes "taal_fails (post_taal w key1 raw_hex)" and "taal_fails (post_taal w key2 raw_hex)"
  shows "taal_loop w raw_hex TAAL_KEYS = ([PostTaal key1 raw_hex, PostTaal key2 raw_hex], None)"
  using assms
  by (cases "post_taal w key1 raw_hex"; cases "post_taal w key2 raw_hex")
     (simp_all add: TAAL_KEYS_eq)

lemma woc_fallback_fails:
  assumes "woc_fails (post_woc w raw_hex)"
  shows "\<exists>e. woc_fallback w raw_hex = ([PostWoc raw_hex, Say (BroadcastFailedWith e)], PNone)"
  using assms by (cases "post_woc w raw_hex") (simp_all add: woc_fallback_def)

lemma woc_fallback_ok:
  assumes "post_woc w raw_hex = Responds r" and "\<not> raises_for_status r"
  shows "woc_fallback w raw_hex = ([PostWoc raw_hex], PStr (strip (remove_quotes (r_text r))))"
  using assms by (simp add: woc_fallback_def)

section \<open>Broadcast: total failure\<close>

text \<open>
  C4. When every attempt of a broadcast call fails (both TAAL keys and WhatsOnChain),
  the call makes each attempt once, prints one failure line and returns None: there is
  no transaction id and no other outcome.
\<close>

theorem broadcast_all_fail:
  assumes "list_all (\<lambda>key. taal_fails (post_taal w key raw_hex)) TAAL_KEYS"
    and "woc_fails (post_woc w raw_hex)"
  shows "\<exists>e. broadcast w raw_hex
             = ([Say BroadcastingViaTaal, PostTaal key1 raw_hex, PostTaal key2 raw_hex,
                 Say TaalFailedTryingWoc, PostWoc raw_hex, Say (BroadcastFailedWith e)],
                PNone)"
proof -
  from assms(1) have "taal_fails (post_taal w key1 raw_hex)"
    and "taal_fails (post_taal w key2 raw_hex)"
    by (simp_all add: TAAL_KEYS_eq)
  then have loop: "taal_loop w raw_hex TAAL_KEYS
                   = ([PostTaal key1 raw_hex, PostTaal key2 raw_hex], None)"
    by (rule taal_loop_none_ok)
  from woc_fallback_fails [OF assms(2)] obtain e where
    "woc_fallback w raw_hex = ([PostWoc raw_hex, Say (BroadcastFailedWith e)], PNone)" ..
  with loop show ?thesis by (simp add: broadcast_def)
qed

theorem broadcast_all_fail_witness:
  "list_all (\<lambda>key. taal_fails (post_taal offline key ''0100ff'')) TAAL_KEYS
   \<and> woc_fails (post_woc offline ''0100ff'')
   \<and> snd (broadcast offline ''0100ff'') = PNone"
proof -
  have h1: "list_all (\<lambda>key. taal_fails (post_taal offline key ''0100ff'')) TAAL_KEYS"
    by (simp add: offline_def TAAL_KEYS_eq)
  have h2: "woc_fails (post_woc offline ''0100ff'')"
    by (simp add: offline_def)
  from broadcast_all_fail [OF h1 h2] have "snd (broadcast offline ''0100ff'') = PNone"
    by auto
  with h1 h2 show ?thesis by simp
qed

section \<open>Broadcast: order of the attempts\<close>

text \<open>
  C3, as the script has it. A broadcast call makes its attempts in one fixed order:
  TAAL with the first API key, TAAL with the second API key, then WhatsOnChain. The
  first attempt that succeeds (status 200 from TAAL, no error status from WhatsOnChain)
  ends the call with the value taken from its response, and no later attempt is made.
  Each of the three attempts is made at most once; TAAL is asked a second time, with
  the other key, when the first key failed.
\<close>

theorem broadcast_attempts_in_order:
  "(post_taal w key1 raw_hex = Responds r \<and> status_code r = 200 \<longrightarrow>
      posts (fst (broadcast w raw_hex)) = [PostTaal key1 raw_hex]
      \<and> snd (broadcast w raw_hex) = taal_answer w r)
   \<and> (taal_fails (post_taal w key1 raw_hex)
        \<and> post_taal w key2 raw_hex = Responds r \<and> status_code r = 200 \<longrightarrow>
      posts (fst (broadcast w raw_hex)) = [PostTaal key1 raw_hex, PostTaal key2 raw_hex]
      \<and> snd (broadcast w raw_hex) = taal_answer w r)
   \<and> (taal_fails (post_taal w key1 raw_hex) \<and> taal_fails (post_taal w key2 raw_hex) \<longrightarrow>
      posts (fst (broadcast w raw_hex))
        = [PostTaal key1 raw_hex, PostTaal key2 raw_hex, PostWoc raw_hex]
      \<and> snd (broadcast w raw_hex) = snd (woc_fallback w raw_hex))"
proof (intro conjI impI)
  assume a: "post_taal w key1 raw_hex = Responds r \<and> status_code r = 200"
  then have loop: "taal_loop w raw_hex TAAL_KEYS
                   = ([PostTaal key1 raw_hex], Some (taal_answer w r))"
    by (simp add: taal_loop_first_ok)
  from loop show "posts (fst (broadcast w raw_hex)) = [PostTaal key1 raw_hex]"
    by (simp add: broadcast_def posts_simps)
  from loop show "snd (broadcast w raw_hex) = taal_answer w r"
    by (simp add: broadcast_def)
next
  assume a: "taal_fails (post_taal w key1 raw_hex)
             \<and> post_taal w key2 raw_hex = Responds r \<and> status_code r = 200"
  then have loop: "taal_loop w raw_hex TAAL_KEYS
                   = ([PostTaal key1 raw_hex, PostTaal key2 raw_hex], Some (taal_answer w r))"
    by (simp add: taal_loop_second_ok)
  from loop show "posts (fst (broadcast w raw_hex))
                  = [PostTaal key1 raw_hex, PostTaal key2 raw_hex]"
    by (simp add: broadcast_def posts_simps)
  from loop show "snd (broadcast w raw_hex) = taal_answer w r"
    by (simp add: broadcast_def)
next
  assume a: "taal_fails (post_taal w key1 raw_hex) \<and> taal_fails (post_taal w key2 raw_hex)"
  then have loop: "taal_loop w raw_hex TAAL_KEYS
                   = ([PostTaal key1 raw_hex, PostTaal key2 raw_hex], None)"
    by (simp add: taal_loop_none_ok)
  have woc: "posts (fst (woc_fallback w raw_hex)) = [PostWoc raw_hex]"
    by (cases "post_woc w raw_hex") (simp_all add: woc_fallback_def posts_simps)
  from loop woc show "posts (fst (broadcast w raw_hex))
                      = [PostTaal key1 raw_hex, PostTaal key2 raw_hex, PostWoc raw_hex]"
    by (simp add: broadcast_def posts_simps case_prod_beta)
  from loop show "snd (broadcast w raw_hex) = snd (woc_fallback w raw_hex)"
    by (simp add: broadcast_def case_prod_beta)
qed

theorem broadcast_attempts_in_order_witness:
  "posts (fst (broadcast (online\<lparr>post_taal := (\<lambda>key raw_hex. Responds taal_ok)\<rparr>) ''0100ff''))
     = [PostTaal key1 ''0100ff'']
   \<and> posts (fst (broadcast online ''0100ff''))
       = [PostTaal key1 ''0100ff'', PostTaal key2 ''0100ff'']
   \<and> snd (broadcast online ''0100ff'') = PStr sample_txid
   \<and> posts (fst (broadcast offline ''0100ff''))
       = [PostTaal key1 ''0100ff'', PostTaal key2 ''0100ff'', PostWoc ''0100ff'']
   \<and> snd (broadcast offline ''0100ff'') = PNone"
proof -
  have ans: "taal_answer w taal_ok = PStr sample_txid" for w
    by (simp add: taal_answer_def taal_ok_def dict_get_def)
  have h1: "post_taal (online\<lparr>post_taal := (\<lambda>key raw_hex. Responds taal_ok)\<rparr>) key1 ''0100ff''
              = Responds taal_ok \<and> status_code taal_ok = 200"
    by (simp add: taal_ok_def)
  have h2: "taal_fails (post_taal online key1 ''0100ff'')
            \<and> post_taal online key2 ''0100ff'' = Responds taal_ok
            \<and> status_code taal_ok = 200"
    by (simp add: online_def taal_ok_def key1_neq_key2)
  have h3: "taal_fails (post_taal offline key1 ''0100ff'')
            \<and> taal_fails (post_taal offline key2 ''0100ff'')"
    by (simp add: offline_def)
  have w3: "snd (woc_fallback offline ''0100ff'') = PNone"
    by (simp add: woc_fallback_def offline_def)
  from h1 h2 h3 w3 ans
    broadcast_attempts_in_order
      [of "online\<lparr>post_taal := (\<lambda>key raw_hex. Responds taal_ok)\<rparr>" "''0100ff''" taal_ok]
    broadcast_attempts_in_order [of online "''0100ff''" taal_ok]
    broadcast_attempts_in_order [of offline "''0100ff''" taal_ok]
  show ?thesis by simp
qed

text \<open>
  C3 as it is stated fails where it says that a provider that failed is not retried:
  with TAAL down, the provider is contacted twice (once per key) before WhatsOnChain.
\<close>

theorem taal_contacted_twice:
  "contacted (fst (broadcast offline ''0100ff'')) = [TAAL, TAAL, WhatsOnChain]"
  by (simp add: broadcast_def TAAL_KEYS_eq offline_def woc_fallback_def contacted_def posts_simps)

section \<open>The send operations around the prompt\<close>




lemma no_build_mem: "filter is_build evs = [] \<Longrightarrow> BuildTx call \<notin> set evs"
  by (auto simp: filter_empty_conv)

lemma build_and_send_shape:
  "prompt_shape w TransactionSuccessful TransactionFailed
     (build_and_send w to_address amount_str)"
proof (cases "get_balance w")
  case (Inl e)
  then show ?thesis 
    by (simp add: build_and_send_def get_balance_sats_def posts_simps prompt_shape_def no_build_mem)
next
  case (Inr total)
  show ?thesis
  proof (cases "send_amount w amount_str total")
    case (Return evs)
    then have "evs = [Say BalanceTooLow]"
      by (auto simp: send_amount_def Let_def split: if_splits sum.splits)
    with Inr Return show ?thesis
      by (simp add: build_and_send_def get_balance_sats_def posts_simps prompt_shape_def no_build_mem)
  next
    case (Raise evs e)
    then have "evs = []"
      by (auto simp: send_amount_def Let_def split: if_splits sum.splits)
    with Inr Raise show ?thesis
      by (simp add: build_and_send_def get_balance_sats_def posts_simps prompt_shape_def no_build_mem)
  next
    case (Go evs send_sats)
    then have evs: "posts evs = [] \<and> AskConfirm \<notin> set evs \<and> filter is_build evs = []"
      by (auto simp: send_amount_def Let_def posts_simps split: if_splits sum.splits)
    show ?thesis
    proof (cases "send_sats > total")
      case True
      with Inr Go evs show ?thesis
        by (simp add: build_and_send_def get_balance_sats_def posts_simps prompt_shape_def no_build_mem)
    next
      case False
      let ?call = "PaymentTx to_address send_sats (if is_max amount_str then Some 500 else None)"
      show ?thesis
      proof (cases "create_transaction w ?call")
        case (Inl e)
        with Inr Go evs False show ?thesis
          by (simp add: build_and_send_def get_balance_sats_def posts_simps prompt_shape_def no_build_mem)
      next
        case (Inr raw_hex)
        have "build_and_send w to_address amount_str =
                (Say Preparing # QueryBalance # evs) @ BuildTx ?call
                  # Say (TxSummary to_address send_sats (length raw_hex div 2))
                  # fst (confirm_and_broadcast w raw_hex TransactionSuccessful)
                  @ on_error TransactionFailed (snd (confirm_and_broadcast w raw_hex TransactionSuccessful))"
          using \<open>get_balance w = Inr total\<close> Go False Inr
          by (simp add: build_and_send_def get_balance_sats_def case_prod_beta on_error_def)
        moreover have "posts (Say Preparing # QueryBalance # evs) = []
                       \<and> AskConfirm \<notin> set (Say Preparing # QueryBalance # evs)
                       \<and> filter is_build (Say Preparing # QueryBalance # evs) = []"
          using evs by (simp add: posts_simps)
        ultimately show ?thesis using Inr unfolding prompt_shape_def by blast
      qed
    qed
  qed
qed


lemma first_post_in_broadcast: "PostTaal key1 raw_hex \<in> set (fst (broadcast w raw_hex))"
  by (cases "post_taal w key1 raw_hex"; cases "post_taal w key2 raw_hex")
     (simp_all add: broadcast_def TAAL_KEYS_eq case_prod_beta)

lemma confirm_yes:
  assumes "input_line w = Inr answer" and "lower answer = ''yes''"
  shows "PostTaal key1 raw_hex \<in> set (fst (confirm_and_broadcast w raw_hex success))"
  using assms first_post_in_broadcast [of raw_hex w]
  by (auto simp: confirm_and_broadcast_def case_prod_beta split: sum.splits bool.splits)

lemma confirm_no:
  assumes "input_line w = Inr answer" and "lower answer \<noteq> ''yes''"
  shows "confirm_and_broadcast w raw_hex success = ([AskConfirm, Say Cancelled], None)"
  using assms by (simp add: confirm_and_broadcast_def)

lemma confirm_raises:
  assumes "input_line w = Inl e"
  shows "confirm_and_broadcast w raw_hex success = ([AskConfirm], Some e)"
  using assms by (simp add: confirm_and_broadcast_def)

lemma send_op_return_shape:
  "prompt_shape w DataWritten DataError (send_op_return w data_string)"
proof (cases "get_balance w")
  case (Inl e)
  then show ?thesis
    by (simp add: send_op_return_def get_balance_sats_def posts_simps prompt_shape_def)
next
  case (Inr bal)
  show ?thesis
  proof (cases "bal < 1000")
    case True
    with Inr show ?thesis
      by (simp add: send_op_return_def get_balance_sats_def posts_simps prompt_shape_def)
  next
    case False
    show ?thesis
    proof (cases "create_transaction w (DataTx data_string)")
      case (Inl e)
      with \<open>get_balance w = Inr bal\<close> False show ?thesis
        by (simp add: send_op_return_def get_balance_sats_def posts_simps prompt_shape_def)
    next
      case raw: (Inr raw_hex)
      have "send_op_return w data_string =
              [Say PreparingData, QueryBalance] @ BuildTx (DataTx data_string)
                # Say (DataSummary data_string (length raw_hex div 2)
                        (data_fee_shown (length raw_hex div 2)))
                # fst (confirm_and_broadcast w raw_hex DataWritten)
                @ on_error DataError (snd (confirm_and_broadcast w raw_hex DataWritten))"
        using Inr False raw
        by (simp add: send_op_return_def get_balance_sats_def case_prod_beta on_error_def Let_def)
      moreover have "posts [Say PreparingData, QueryBalance] = []
                     \<and> AskConfirm \<notin> set [Say PreparingData, QueryBalance]
                     \<and> filter is_build [Say PreparingData, QueryBalance] = []"
        by (simp add: posts_simps)
      ultimately show ?thesis using raw unfolding prompt_shape_def by blast
    qed
  qed
qed

lemma posts_on_error: "posts (on_error handler err) = []"
  by (cases err) (simp_all add: on_error_def posts_simps)

text \<open>What the two shapes give, for any trace of that shape.\<close>

lemma shape_not_yes:
  assumes "prompt_shape w success handler tr"
    and "input_line w = Inr answer" and "lower answer \<noteq> ''yes''"
  shows "posts tr = [] \<and> (AskConfirm \<in> set tr \<longrightarrow> last tr = Say Cancelled)"
  using assms(1) unfolding prompt_shape_def
proof
  assume "posts tr = [] \<and> AskConfirm \<notin> set tr
          \<and> (\<forall>call. BuildTx call \<in> set tr \<longrightarrow> (\<exists>e. create_transaction w call = Inl e))"
  then show ?thesis by simp
next
  assume "\<exists>pre call raw_hex summary.
            create_transaction w call = Inr raw_hex
            \<and> posts pre = [] \<and> AskConfirm \<notin> set pre \<and> filter is_build pre = []
            \<and> tr = pre @ BuildTx call # Say summary
                   # fst (confirm_and_broadcast w raw_hex success)
                   @ on_error handler (snd (confirm_and_broadcast w raw_hex success))"
  then obtain pre call raw_hex summary where
    pre: "posts pre = []" and
    tr: "tr = pre @ BuildTx call # Say summary
              # fst (confirm_and_broadcast w raw_hex success)
              @ on_error handler (snd (confirm_and_broadcast w raw_hex success))"
    by blast
  from tr pre confirm_no [OF assms(2,3)] show ?thesis
    by (simp add: posts_simps on_error_def)
qed

lemma shape_raises:
  assumes "prompt_shape w success handler tr"
    and "input_line w = Inl e"
  shows "posts tr = []"
  using assms(1) unfolding prompt_shape_def
proof
  assume "posts tr = [] \<and> AskConfirm \<notin> set tr
          \<and> (\<forall>call. BuildTx call \<in> set tr \<longrightarrow> (\<exists>e. create_transaction w call = Inl e))"
  then show ?thesis by simp
next
  assume "\<exists>pre call raw_hex summary.
            create_transaction w call = Inr raw_hex
            \<and> posts pre = [] \<and> AskConfirm \<notin> set pre \<and> filter is_build pre = []
            \<and> tr = pre @ BuildTx call # Say summary
                   # fst (confirm_and_broadcast w raw_hex success)
                   @ on_error handler (snd (confirm_and_broadcast w raw_hex success))"
  then obtain pre call raw_hex summary where
    pre: "posts pre = []" and
    tr: "tr = pre @ BuildTx call # Say summary
              # fst (confirm_and_broadcast w raw_hex success)
              @ on_error handler (snd (confirm_and_broadcast w raw_hex success))"
    by blast
  from tr pre confirm_raises [OF assms(2)] show ?thesis
    by (simp add: posts_simps on_error_def)
qed

lemma shape_yes:
  assumes "prompt_shape w success handler tr"
    and "input_line w = Inr answer" and "lower answer = ''yes''"
    and "AskConfirm \<in> set tr"
  shows "\<exists>call raw_hex. BuildTx call \<in> set tr \<and> create_transaction w call = Inr raw_hex
                        \<and> PostTaal key1 raw_hex \<in> set tr"
  using assms(1) unfolding prompt_shape_def
proof
  assume "posts tr = [] \<and> AskConfirm \<notin> set tr
          \<and> (\<forall>call. BuildTx call \<in> set tr \<longrightarrow> (\<exists>e. create_transaction w call = Inl e))"
  with assms(4) show ?thesis by simp
next
  assume "\<exists>pre call raw_hex summary.
            create_transaction w call = Inr raw_hex
            \<and> posts pre = [] \<and> AskConfirm \<notin> set pre \<and> filter is_build pre = []
            \<and> tr = pre @ BuildTx call # Say summary
                   # fst (confirm_and_broadcast w raw_hex success)
                   @ on_error handler (snd (confirm_and_broadcast w raw_hex success))"
  then obtain pre call raw_hex summary where
    ct: "create_transaction w call = Inr raw_hex" and
    tr: "tr = pre @ BuildTx call # Say summary
              # fst (confirm_and_broadcast w raw_hex success)
              @ on_error handler (snd (confirm_and_broadcast w raw_hex success))"
    by blast
  from tr have "BuildTx call \<in> set tr" by simp
  moreover from tr confirm_yes [OF assms(2,3), of raw_hex success]
  have "PostTaal key1 raw_hex \<in> set tr" by simp
  ultimately show ?thesis using ct by blast
qed

text \<open>Evaluations in the sample worlds.\<close>

lemma lower_YES: "lower ''YES'' = ''yes''"
  by code_simp

lemma lower_y: "lower ''y'' \<noteq> ''yes''"
  by (simp add: lower_def)

lemma not_max_sample: "\<not> is_max ''0.0005''"
  by (simp add: is_max_def lower_def lower_char_def)

lemma prompt_in_confirm: "AskConfirm \<in> set (fst (confirm_and_broadcast w raw_hex success))"
  by (simp add: confirm_and_broadcast_def case_prod_beta split: sum.splits bool.splits)

lemma online_send_reaches_prompt:
  "AskConfirm \<in> set (build_and_send (online\<lparr>input_line := a\<rparr>) ''1Dest'' ''0.0005'')"
  by (simp add: build_and_send_def get_balance_sats_def send_amount_def not_max_sample
        online_def case_prod_beta prompt_in_confirm)

lemma online_data_reaches_prompt:
  "AskConfirm \<in> set (send_op_return (online\<lparr>input_line := a\<rparr>) ''hello'')"
  by (simp add: send_op_return_def get_balance_sats_def online_def case_prod_beta
        prompt_in_confirm)

section \<open>Confirmation before broadcast\<close>

text \<open>
  C10. In both send operations (standard and data-only), once the transaction is
  prepared and the prompt is reached: when the answer, lowercased, is \<^verbatim>\<open>yes\<close>, the
  raw transaction that was built is posted (first to TAAL with the first key); for any
  other answer the operation ends with the line \<^verbatim>\<open>Cancelled.\<close> and its trace holds
  no broadcast request. A trace holds no broadcast request either when the prompt
  itself raises, or when the prompt is never reached.
\<close>

theorem broadcast_only_on_yes:
  "(input_line w = Inr answer \<and> lower answer = ''yes'' \<longrightarrow>
      (AskConfirm \<in> set (build_and_send w to_address amount_str) \<longrightarrow>
         (\<exists>call raw_hex. BuildTx call \<in> set (build_and_send w to_address amount_str)
            \<and> create_transaction w call = Inr raw_hex
            \<and> PostTaal key1 raw_hex \<in> set (build_and_send w to_address amount_str)))
      \<and> (AskConfirm \<in> set (send_op_return w data_string) \<longrightarrow>
         (\<exists>call raw_hex. BuildTx call \<in> set (send_op_return w data_string)
            \<and> create_transaction w call = Inr raw_hex
            \<and> PostTaal key1 raw_hex \<in> set (send_op_return w data_string))))
   \<and> (input_line w = Inr answer \<and> lower answer \<noteq> ''yes'' \<longrightarrow>
      posts (build_and_send w to_address amount_str) = []
      \<and> (AskConfirm \<in> set (build_and_send w to_address amount_str) \<longrightarrow>
           last (build_and_send w to_address amount_str) = Say Cancelled)
      \<and> posts (send_op_return w data_string) = []
      \<and> (AskConfirm \<in> set (send_op_return w data_string) \<longrightarrow>
           last (send_op_return w data_string) = Say Cancelled))
   \<and> (input_line w = Inl e \<longrightarrow>
      posts (build_and_send w to_address amount_str) = []
      \<and> posts (send_op_return w data_string) = [])"
  using shape_yes [OF build_and_send_shape, of w answer to_address amount_str]
    shape_yes [OF send_op_return_shape, of w answer data_string]
    shape_not_yes [OF build_and_send_shape, of w answer to_address amount_str]
    shape_not_yes [OF send_op_return_shape, of w answer data_string]
    shape_raises [OF build_and_send_shape, of w e to_address amount_str]
    shape_raises [OF send_op_return_shape, of w e data_string]
  by blast

theorem broadcast_only_on_yes_witness:
  "lower ''YES'' = ''yes''
   \<and> PostTaal key1 ''0100ff''
       \<in> set (build_and_send (online\<lparr>input_line := Inr ''YES''\<rparr>) ''1Dest'' ''0.0005'')
   \<and> PostTaal key1 ''0100ff''
       \<in> set (send_op_return (online\<lparr>input_line := Inr ''YES''\<rparr>) ''hello'')
   \<and> lower ''y'' \<noteq> ''yes''
   \<and> posts (build_and_send (online\<lparr>input_line := Inr ''y''\<rparr>) ''1Dest'' ''0.0005'') = []
   \<and> last (build_and_send (online\<lparr>input_line := Inr ''y''\<rparr>) ''1Dest'' ''0.0005'') = Say Cancelled
   \<and> posts (send_op_return (online\<lparr>input_line := Inr ''y''\<rparr>) ''hello'') = []
   \<and> last (send_op_return (online\<lparr>input_line := Inr ''y''\<rparr>) ''hello'') = Say Cancelled"
proof -
  let ?yes = "online\<lparr>input_line := Inr ''YES''\<rparr>"
  let ?no = "online\<lparr>input_line := Inr ''y''\<rparr>"
  have raw: "create_transaction ?yes call = Inr raw_hex \<Longrightarrow> raw_hex = ''0100ff''"
    for call raw_hex
    by (simp add: online_def)
  have in1: "input_line ?yes = Inr ''YES'' \<and> lower ''YES'' = ''yes''"
    by (simp add: lower_YES)
  have in2: "input_line ?no = Inr ''y'' \<and> lower ''y'' \<noteq> ''yes''"
    by (simp add: lower_y)
  note yes = broadcast_only_on_yes [of ?yes "''YES''" "''1Dest''" "''0.0005''" "''hello''",
      THEN conjunct1, rule_format, OF in1]
  note no = broadcast_only_on_yes [of ?no "''y''" "''1Dest''" "''0.0005''" "''hello''",
      THEN conjunct2, THEN conjunct1, rule_format, OF in2]
  from yes [THEN conjunct1, rule_format, OF online_send_reaches_prompt] raw
  have y1: "PostTaal key1 ''0100ff'' \<in> set (build_and_send ?yes ''1Dest'' ''0.0005'')"
    by blast
  from yes [THEN conjunct2, rule_format, OF online_data_reaches_prompt] raw
  have y2: "PostTaal key1 ''0100ff'' \<in> set (send_op_return ?yes ''hello'')"
    by blast
  from no online_send_reaches_prompt [of "Inr ''y''"] online_data_reaches_prompt [of "Inr ''y''"]
  have n: "posts (build_and_send ?no ''1Dest'' ''0.0005'') = []
            \<and> last (build_and_send ?no ''1Dest'' ''0.0005'') = Say Cancelled
            \<and> posts (send_op_return ?no ''hello'') = []
            \<and> last (send_op_return ?no ''hello'') = Say Cancelled"
    by blast
  from y1 y2 n lower_YES lower_y show ?thesis by blast
qed

section \<open>Standard send: the amount and the funds check\<close>

text \<open>Only \<^verbatim>\<open>create_transaction\<close> builds a transaction: nothing from the prompt on
  does.\<close>

lemma no_build_in_broadcast: "filter is_build (fst (broadcast w raw_hex)) = []"
proof -
  have loop: "filter is_build (fst (taal_loop w raw_hex keys)) = []" for keys
    by (induction keys) (simp_all add: case_prod_beta split: http_result.splits)
  have woc: "filter is_build (fst (woc_fallback w raw_hex)) = []"
    by (simp add: woc_fallback_def split: http_result.splits)
  show ?thesis
    by (cases "taal_loop w raw_hex TAAL_KEYS")
       (use loop [of TAAL_KEYS] woc in \<open>auto simp: broadcast_def case_prod_beta split: option.splits\<close>)
qed

lemma no_build_in_confirm:
  "filter is_build (fst (confirm_and_broadcast w raw_hex success)) = []"
  by (simp add: confirm_and_broadcast_def case_prod_beta no_build_in_broadcast
        split: sum.splits bool.splits)

lemma no_build_on_error: "filter is_build (on_error handler err) = []"
  by (cases err) (simp_all add: on_error_def)


lemma not_max_abc: "\<not> is_max ''abc''"
  by (simp add: is_max_def lower_def lower_char_def)

text \<open>What a MAX request (\<^verbatim>\<open>max\<close> or \<^verbatim>\<open>all\<close> in any case) hands to the builder,
  with a balance of \<open>total_sats\<close>: nothing when \<open>total_sats - 500\<close> is zero or negative
  (the operation prints \<^verbatim>\<open>Balance too low for fee.\<close> and stops), and otherwise one
  output of \<open>total_sats - 500\<close> with the keyword \<^verbatim>\<open>fee=500\<close>.\<close>

lemma max_send_amount:
  assumes "is_max amount_str" and "get_balance w = Inr total_sats"
  shows "if total_sats - 500 \<le> 0
         then build_and_send w to_address amount_str
              = [Say Preparing, QueryBalance, Say BalanceTooLow]
         else take 4 (build_and_send w to_address amount_str)
              = [Say Preparing, QueryBalance, Say (CalculatingMax (total_sats - 500)),
                 BuildTx (PaymentTx to_address (total_sats - 500) (Some 500))]
            \<and> filter is_build (build_and_send w to_address amount_str)
              = [BuildTx (PaymentTx to_address (total_sats - 500) (Some 500))]"
proof (cases "total_sats - 500 \<le> 0")
  case True
  with assms show ?thesis
    by (simp add: build_and_send_def get_balance_sats_def send_amount_def Let_def)
next
  case False
  with assms show ?thesis
    by (cases "create_transaction w (PaymentTx to_address (total_sats - 500) (Some 500))")
       (simp_all add: build_and_send_def get_balance_sats_def send_amount_def Let_def case_prod_beta
          no_build_in_confirm no_build_on_error)
qed

text \<open>The funds check of a request that is not MAX compares the amount computed
  from the text with the balance, without a fee; the builder is then called with
  \<^verbatim>\<open>fee=None\<close>.\<close>

lemma send_guard_without_fee:
  assumes "\<not> is_max amount_str" and "get_balance w = Inr total_sats"
    and "decimal_sats w amount_str = Inr send_sats"
  shows "if send_sats > total_sats
         then build_and_send w to_address amount_str
              = [Say Preparing, QueryBalance, Say InsufficientFunds]
         else take 3 (build_and_send w to_address amount_str)
              = [Say Preparing, QueryBalance, BuildTx (PaymentTx to_address send_sats None)]
            \<and> filter is_build (build_and_send w to_address amount_str)
              = [BuildTx (PaymentTx to_address send_sats None)]
            \<and> (case create_transaction w (PaymentTx to_address send_sats None) of
                 Inl e \<Rightarrow> build_and_send w to_address amount_str
                          = [Say Preparing, QueryBalance,
                             BuildTx (PaymentTx to_address send_sats None),
                             Say (TransactionFailed e)]
               | Inr raw_hex \<Rightarrow> AskConfirm \<in> set (build_and_send w to_address amount_str))"
proof (cases "send_sats > total_sats")
  case True
  with assms show ?thesis
    by (simp add: build_and_send_def get_balance_sats_def send_amount_def Let_def)
next
  case False
  with assms show ?thesis
    by (cases "create_transaction w (PaymentTx to_address send_sats None)")
       (simp_all add: build_and_send_def get_balance_sats_def send_amount_def Let_def case_prod_beta
          no_build_in_confirm no_build_on_error prompt_in_confirm)
qed

text \<open>
  C8, as the script has it. A request that is not MAX and whose amount does not parse:
  the balance is fetched first (one network query), then the parse raises and the
  operation ends with \<^verbatim>\<open>Transaction Failed\<close>. No transaction is built, and the balance
  query is the only network call.
\<close>

theorem malformed_amount_after_balance:
  assumes "\<not> is_max amount_str" and "decimal_sats w amount_str = Inl e"
  shows "build_and_send w to_address amount_str
         = [Say Preparing, QueryBalance,
            Say (TransactionFailed (case get_balance w of Inl e' \<Rightarrow> e' | Inr total_sats \<Rightarrow> e))]
       \<and> network_calls (build_and_send w to_address amount_str) = [QueryBalance]
       \<and> filter is_build (build_and_send w to_address amount_str) = []"
  using assms
  by (cases "get_balance w")
     (simp_all add: build_and_send_def get_balance_sats_def send_amount_def Let_def network_calls_def)

theorem malformed_amount_after_balance_witness:
  "\<not> is_max ''abc'' \<and> decimal_sats online ''abc'' = Inl (LibraryError ''InvalidOperation'')
   \<and> build_and_send online ''1Dest'' ''abc''
       = [Say Preparing, QueryBalance, Say (TransactionFailed (LibraryError ''InvalidOperation''))]"
proof -
  have d: "decimal_sats online ''abc'' = Inl (LibraryError ''InvalidOperation'')"
    by (simp add: online_def)
  have b: "get_balance online = Inr 150000"
    by (simp add: online_def)
  from malformed_amount_after_balance [OF not_max_abc d, of "''1Dest''"] b not_max_abc d
  show ?thesis by simp
qed

text \<open>
  C8 as it is stated fails: the rejection of a malformed amount comes after a network
  call, the balance query.
\<close>

theorem malformed_amount_queries_balance:
  "\<not> is_max ''abc'' \<and> decimal_sats online ''abc'' = Inl (LibraryError ''InvalidOperation'')
   \<and> network_calls (build_and_send online ''1Dest'' ''abc'') \<noteq> []"
  by (simp add: build_and_send_def get_balance_sats_def send_amount_def Let_def not_max_abc online_def
        network_calls_def)

section \<open>Broadcast: what is taken from a response\<close>

lemma broadcast_taal_returns:
  assumes "taal_returns w raw_hex r"
  shows "broadcast w raw_hex = (Say BroadcastingViaTaal # fst (taal_loop w raw_hex TAAL_KEYS),
                                taal_answer w r)"
  using assms taal_loop_first_ok [of w raw_hex r] taal_loop_second_ok [of w raw_hex r]
  by (auto simp: taal_returns_def broadcast_def)

lemma broadcast_taal_fails:
  assumes "taal_fails (post_taal w key1 raw_hex)" and "taal_fails (post_taal w key2 raw_hex)"
  shows "snd (broadcast w raw_hex) = snd (woc_fallback w raw_hex)"
  using taal_loop_none_ok [OF assms] by (simp add: broadcast_def case_prod_beta)

lemma space_not_quote: "is_space c \<Longrightarrow> c \<noteq> CHR 0x22"
  by (auto simp: is_space_def)

lemma remove_quotes_spaces: "list_all is_space ws \<Longrightarrow> remove_quotes ws = ws"
  by (induction ws) (auto simp: remove_quotes_def dest: space_not_quote)

lemma remove_quotes_none: "CHR 0x22 \<notin> set s \<Longrightarrow> remove_quotes s = s"
  by (induction s) (auto simp: remove_quotes_def)

lemma dropWhile_spaces: "list_all is_space ws \<Longrightarrow> dropWhile is_space (ws @ xs) = dropWhile is_space xs"
  by (induction ws) auto

lemma dropWhile_only_spaces: "list_all is_space ws \<Longrightarrow> dropWhile is_space ws = []"
  by (induction ws) auto

lemma strip_padded:
  assumes "list_all is_space ws1" and "list_all is_space ws2"
    and "s \<noteq> [] \<longrightarrow> \<not> is_space (hd s) \<and> \<not> is_space (last s)"
  shows "strip (ws1 @ s @ ws2) = s"
proof (cases "s = []")
  case True
  have d: "dropWhile is_space (ws1 @ ws2) = []"
    using assms(1,2) by (intro dropWhile_only_spaces) simp
  have "strip (ws1 @ ws2) = []"
    unfolding strip_def d by simp
  with True show ?thesis by simp
next
  case False
  with assms(3) have h: "\<not> is_space (hd s)" and l: "\<not> is_space (last s)" by simp_all
  from False h have "dropWhile is_space (s @ ws2) = s @ ws2"
    by (cases s) simp_all
  with assms(1) have a: "dropWhile is_space (ws1 @ s @ ws2) = s @ ws2"
    by (simp add: dropWhile_spaces)
  from assms(2) have "list_all is_space (rev ws2)" by (simp add: list_all_iff)
  then have "dropWhile is_space (rev ws2 @ rev s) = dropWhile is_space (rev s)"
    by (rule dropWhile_spaces)
  also from False l have "\<dots> = rev s"
    by (cases "rev s") (auto simp: last_rev [symmetric] simp del: last_rev)
  finally show ?thesis using a by (simp add: strip_def)
qed

lemma strip_quoted:
  assumes "list_all is_space ws1" and "list_all is_space ws2"
    and "CHR 0x22 \<notin> set s"
    and "s \<noteq> [] \<longrightarrow> \<not> is_space (hd s) \<and> \<not> is_space (last s)"
  shows "strip (remove_quotes (ws1 @ CHR 0x22 # s @ CHR 0x22 # ws2)) = s"
proof -
  have "remove_quotes (ws1 @ CHR 0x22 # s @ CHR 0x22 # ws2) = ws1 @ s @ ws2"
    using assms(1,2,3) remove_quotes_spaces [of ws1] remove_quotes_spaces [of ws2]
      remove_quotes_none [of s]
    by (simp add: remove_quotes_def)
  with strip_padded [OF assms(1,2,4)] show ?thesis by simp
qed


lemma shape_built:
  assumes "prompt_shape w success handler tr"
    and "BuildTx call \<in> set tr" and "create_transaction w call = Inr raw_hex"
  shows "\<exists>pre summary.
           tr = pre @ BuildTx call # Say summary
                  # fst (confirm_and_broadcast w raw_hex success)
                  @ on_error handler (snd (confirm_and_broadcast w raw_hex success))"
  using assms(1) unfolding prompt_shape_def
proof
  assume "posts tr = [] \<and> AskConfirm \<notin> set tr
          \<and> (\<forall>call. BuildTx call \<in> set tr \<longrightarrow> (\<exists>e. create_transaction w call = Inl e))"
  with assms(2,3) show ?thesis by auto
next
  assume "\<exists>pre call raw_hex summary.
            create_transaction w call = Inr raw_hex
            \<and> posts pre = [] \<and> AskConfirm \<notin> set pre \<and> filter is_build pre = []
            \<and> tr = pre @ BuildTx call # Say summary
                   # fst (confirm_and_broadcast w raw_hex success)
                   @ on_error handler (snd (confirm_and_broadcast w raw_hex success))"
  then obtain pre call' raw' summary where
    ct: "create_transaction w call' = Inr raw'" and
    pre: "filter is_build pre = []" and
    tr: "tr = pre @ BuildTx call' # Say summary
              # fst (confirm_and_broadcast w raw' success)
              @ on_error handler (snd (confirm_and_broadcast w raw' success))"
    by blast
  from tr pre have "filter is_build tr = [BuildTx call']"
    by (simp add: no_build_in_confirm no_build_on_error)
  moreover from assms(2) have "BuildTx call \<in> set (filter is_build tr)" by simp
  ultimately have "call = call'" by simp
  with ct assms(3) have "raw' = raw_hex" by simp
  with tr \<open>call = call'\<close> show ?thesis by blast
qed

lemma confirm_short:
  assumes "input_line w = Inr answer" and "lower answer = ''yes''"
    and "snd (broadcast w raw_hex) = PNone
         \<or> (\<exists>n. py_len (snd (broadcast w raw_hex)) = Inr n \<and> n \<le> 20)"
  shows "confirm_and_broadcast w raw_hex success
         = (AskConfirm # fst (broadcast w raw_hex) @ [Say BroadcastFailed], None)"
proof -
  from assms(3) have "looks_like_txid (snd (broadcast w raw_hex)) = Inr False"
    by (auto simp: looks_like_txid_def)
  with assms(1,2) show ?thesis
    by (simp add: confirm_and_broadcast_def case_prod_beta)
qed

lemma shape_short:
  assumes "prompt_shape w success handler tr"
    and "BuildTx call \<in> set tr" and "create_transaction w call = Inr raw_hex"
    and "input_line w = Inr answer" and "lower answer = ''yes''"
    and "snd (broadcast w raw_hex) = PNone
         \<or> (\<exists>n. py_len (snd (broadcast w raw_hex)) = Inr n \<and> n \<le> 20)"
  shows "last tr = Say BroadcastFailed"
proof -
  from shape_built [OF assms(1,2,3)] obtain pre summary where
    "tr = pre @ BuildTx call # Say summary
            # fst (confirm_and_broadcast w raw_hex success)
            @ on_error handler (snd (confirm_and_broadcast w raw_hex success))"
    by blast
  with confirm_short [OF assms(4,5,6), of success] show ?thesis
    by (simp add: on_error_def)
qed

lemma taal_says_broadcast:
  "broadcast (taal_says body v) raw_hex
   = ([Say BroadcastingViaTaal, PostTaal key1 raw_hex],
      taal_answer (taal_says body v) \<lparr>status_code = 200, r_text = body, json = Json v\<rparr>)"
  by (simp add: broadcast_def TAAL_KEYS_eq taal_says_def)

lemma taal_says_returns:
  "taal_returns (taal_says body v) raw_hex \<lparr>status_code = 200, r_text = body, json = Json v\<rparr>"
  by (simp add: taal_returns_def taal_says_def)

lemma taal_says_fields:
  "get_balance (taal_says body v) = Inr 150000"
  "decimal_sats (taal_says body v) ''0.0005'' = Inr 50000"
  "create_transaction (taal_says body v) = (\<lambda>c. Inr ''0100ff'')"
  "input_line (taal_says body v) = Inr ''yes''"
  by (simp_all add: taal_says_def online_def)

lemma lower_yes: "lower ''yes'' = ''yes''"
  by (simp add: lower_def lower_char_def)

lemma sample_txid_clean:
  "CHR 0x22 \<notin> set sample_txid \<and> \<not> is_space (hd sample_txid) \<and> \<not> is_space (last sample_txid)"
  by (simp add: sample_txid_def is_space_def)

lemma woc_says_broadcast:
  "snd (broadcast (woc_says body) raw_hex) = PStr (strip (remove_quotes body))"
  by (simp add: broadcast_def TAAL_KEYS_eq woc_says_def offline_def woc_fallback_def
        raises_for_status_def)

text \<open>
  C9, as the script has it. The transaction id is taken from a response by provider.
  From TAAL's 200 response: a JSON object whose \<^verbatim>\<open>txid\<close> field is a string gives that
  string, and one with no \<^verbatim>\<open>txid\<close> field whose \<^verbatim>\<open>result\<close> field is a string gives that
  string; a decoded value that is not an object gives its \<^verbatim>\<open>str\<close> (a JSON string gives
  its content); a body that does not decode gives the text as it is. From
  WhatsOnChain's response: the text with every double quote removed and the
  surrounding whitespace stripped, so a bare quoted string (padded with whitespace or
  not) gives the string between the quotes. An object is read only on the TAAL path,
  and quotes are removed only on the WhatsOnChain path.
\<close>

theorem response_by_provider:
  "(taal_returns w raw_hex r \<and> json r = Json (PDict kvs)
      \<and> map_of kvs ''txid'' = Some (PStr s) \<longrightarrow>
      snd (broadcast w raw_hex) = PStr s)
   \<and> (taal_returns w raw_hex r \<and> json r = Json (PDict kvs)
        \<and> map_of kvs ''txid'' = None \<and> map_of kvs ''result'' = Some (PStr s) \<longrightarrow>
        snd (broadcast w raw_hex) = PStr s)
   \<and> (taal_returns w raw_hex r \<and> json r = Json v \<and> \<not> is_dict v \<longrightarrow>
        snd (broadcast w raw_hex) = PStr (py_str w v))
   \<and> (taal_returns w raw_hex r \<and> json r = Json (PStr s) \<longrightarrow>
        snd (broadcast w raw_hex) = PStr s)
   \<and> (taal_returns w raw_hex r \<and> json r = JsonRaises \<longrightarrow>
        snd (broadcast w raw_hex) = PStr (r_text r))
   \<and> (taal_fails (post_taal w key1 raw_hex) \<and> taal_fails (post_taal w key2 raw_hex)
        \<and> post_woc w raw_hex = Responds r \<and> \<not> raises_for_status r \<longrightarrow>
        snd (broadcast w raw_hex) = PStr (strip (remove_quotes (r_text r)))
        \<and> (list_all is_space ws1 \<and> list_all is_space ws2 \<and> CHR 0x22 \<notin> set s
             \<and> (s \<noteq> [] \<longrightarrow> \<not> is_space (hd s) \<and> \<not> is_space (last s))
             \<and> r_text r = ws1 @ CHR 0x22 # s @ CHR 0x22 # ws2 \<longrightarrow>
             snd (broadcast w raw_hex) = PStr s))"
proof (intro conjI impI)
  assume "taal_returns w raw_hex r \<and> json r = Json (PDict kvs)
      \<and> map_of kvs ''txid'' = Some (PStr s)"
  then show "snd (broadcast w raw_hex) = PStr s"
    using broadcast_taal_returns [of w raw_hex r]
    by (simp add: taal_answer_def dict_get_def)
next
  assume "taal_returns w raw_hex r \<and> json r = Json (PDict kvs)
        \<and> map_of kvs ''txid'' = None \<and> map_of kvs ''result'' = Some (PStr s)"
  then show "snd (broadcast w raw_hex) = PStr s"
    using broadcast_taal_returns [of w raw_hex r]
    by (simp add: taal_answer_def dict_get_def)
next
  assume "taal_returns w raw_hex r \<and> json r = Json v \<and> \<not> is_dict v"
  then show "snd (broadcast w raw_hex) = PStr (py_str w v)"
    using broadcast_taal_returns [of w raw_hex r]
    by (cases v) (simp_all add: taal_answer_def)
next
  assume "taal_returns w raw_hex r \<and> json r = Json (PStr s)"
  then show "snd (broadcast w raw_hex) = PStr s"
    using broadcast_taal_returns [of w raw_hex r]
    by (simp add: taal_answer_def py_str_def)
next
  assume "taal_returns w raw_hex r \<and> json r = JsonRaises"
  then show "snd (broadcast w raw_hex) = PStr (r_text r)"
    using broadcast_taal_returns [of w raw_hex r]
    by (simp add: taal_answer_def)
next
  assume a: "taal_fails (post_taal w key1 raw_hex) \<and> taal_fails (post_taal w key2 raw_hex)
        \<and> post_woc w raw_hex = Responds r \<and> \<not> raises_for_status r"
  then show v: "snd (broadcast w raw_hex) = PStr (strip (remove_quotes (r_text r)))"
    by (simp add: broadcast_taal_fails woc_fallback_ok)
  assume "list_all is_space ws1 \<and> list_all is_space ws2 \<and> CHR 0x22 \<notin> set s
             \<and> (s \<noteq> [] \<longrightarrow> \<not> is_space (hd s) \<and> \<not> is_space (last s))
             \<and> r_text r = ws1 @ CHR 0x22 # s @ CHR 0x22 # ws2"
  with v show "snd (broadcast w raw_hex) = PStr s"
    by (simp add: strip_quoted)
qed

theorem response_by_provider_witness:
  "snd (broadcast online ''0100ff'') = PStr sample_txid
   \<and> snd (broadcast (taal_says (''{'' @ quoted ''result'' @ '': '' @ quoted sample_txid @ ''}'')
                        (PDict [(''result'', PStr sample_txid)])) ''0100ff'')
       = PStr sample_txid
   \<and> snd (broadcast taal_says_seven ''0100ff'') = PStr ''7''
   \<and> snd (broadcast (taal_says (quoted sample_txid) (PStr sample_txid)) ''0100ff'')
       = PStr sample_txid
   \<and> snd (broadcast (taal_says_text sample_txid) ''0100ff'') = PStr sample_txid
   \<and> snd (broadcast (woc_says (quoted sample_txid @ [CHR 0x0A])) ''0100ff'')
       = PStr sample_txid"
proof -
  let ?rbody = "''{'' @ quoted ''result'' @ '': '' @ quoted sample_txid @ ''}''"
  have h1: "taal_returns online ''0100ff'' taal_ok
            \<and> json taal_ok = Json (PDict [(''txid'', PStr sample_txid)])
            \<and> map_of [(''txid'', PStr sample_txid)] ''txid'' = Some (PStr sample_txid)"
    by (simp add: taal_returns_def online_def taal_ok_def key1_neq_key2)
  let ?r2 = "\<lparr>status_code = 200, r_text = ?rbody,
              json = Json (PDict [(''result'', PStr sample_txid)])\<rparr>"
  have h2: "taal_returns (taal_says ?rbody (PDict [(''result'', PStr sample_txid)])) ''0100ff'' ?r2
            \<and> json ?r2 = Json (PDict [(''result'', PStr sample_txid)])
            \<and> map_of [(''result'', PStr sample_txid)] ''txid'' = None
            \<and> map_of [(''result'', PStr sample_txid)] ''result'' = Some (PStr sample_txid)"
    by (simp add: taal_says_returns)
  let ?r3 = "\<lparr>status_code = 200, r_text = ''7'', json = Json (PInt 7)\<rparr>"
  have h3: "taal_returns taal_says_seven ''0100ff'' ?r3 \<and> json ?r3 = Json (PInt 7)
            \<and> \<not> is_dict (PInt 7)"
    by (simp add: taal_returns_def taal_says_seven_def taal_says_def)
  have s3: "py_str taal_says_seven (PInt 7) = ''7''"
    by (simp add: py_str_def taal_says_seven_def)
  let ?r4 = "\<lparr>status_code = 200, r_text = quoted sample_txid, json = Json (PStr sample_txid)\<rparr>"
  have h4: "taal_returns (taal_says (quoted sample_txid) (PStr sample_txid)) ''0100ff'' ?r4
            \<and> json ?r4 = Json (PStr sample_txid)"
    by (simp add: taal_says_returns)
  let ?r5 = "\<lparr>status_code = 200, r_text = sample_txid, json = JsonRaises\<rparr>"
  have h5: "taal_returns (taal_says_text sample_txid) ''0100ff'' ?r5 \<and> json ?r5 = JsonRaises"
    by (simp add: taal_returns_def taal_says_text_def)
  let ?body = "quoted sample_txid @ [CHR 0x0A]"
  let ?r6 = "\<lparr>status_code = 200, r_text = ?body, json = JsonRaises\<rparr>"
  have h6: "taal_fails (post_taal (woc_says ?body) key1 ''0100ff'')
            \<and> taal_fails (post_taal (woc_says ?body) key2 ''0100ff'')
            \<and> post_woc (woc_says ?body) ''0100ff'' = Responds ?r6 \<and> \<not> raises_for_status ?r6"
    by (simp add: woc_says_def offline_def raises_for_status_def)
  have h7: "list_all is_space [] \<and> list_all is_space [CHR 0x0A] \<and> CHR 0x22 \<notin> set sample_txid
            \<and> (sample_txid \<noteq> [] \<longrightarrow>
                 \<not> is_space (hd sample_txid) \<and> \<not> is_space (last sample_txid))
            \<and> r_text ?r6 = [] @ CHR 0x22 # sample_txid @ CHR 0x22 # [CHR 0x0A]"
    using sample_txid_clean by (simp add: is_space_def quoted_def)
  note t1 = response_by_provider [THEN conjunct1, rule_format, OF h1]
  note t2 = response_by_provider [THEN conjunct2, THEN conjunct1, rule_format, OF h2]
  note t3 = response_by_provider [THEN conjunct2, THEN conjunct2, THEN conjunct1,
      rule_format, OF h3]
  note t4 = response_by_provider [THEN conjunct2, THEN conjunct2, THEN conjunct2,
      THEN conjunct1, rule_format, OF h4]
  note t5 = response_by_provider [THEN conjunct2, THEN conjunct2, THEN conjunct2,
      THEN conjunct2, THEN conjunct1, rule_format, OF h5]
  note t6 = response_by_provider [THEN conjunct2, THEN conjunct2, THEN conjunct2,
      THEN conjunct2, THEN conjunct2, rule_format, OF h6, THEN conjunct2,
      rule_format, OF h7]
  from t1 t2 t3 t4 t5 t6 s3 show ?thesis by simp
qed

text \<open>
  C9 as it is stated fails: a JSON object in WhatsOnChain's response does not give its
  \<^verbatim>\<open>txid\<close> field. The body \<^verbatim>\<open>{"txid": "9f2c..."}\<close> gives the text \<^verbatim>\<open>{txid: 9f2c...}\<close>.
\<close>

theorem woc_object_not_read:
  "snd (broadcast (woc_says txid_object_body) ''0100ff'')
     = PStr (''{txid: '' @ sample_txid @ ''}'')
   \<and> snd (broadcast (woc_says txid_object_body) ''0100ff'') \<noteq> PStr sample_txid"
  by (simp add: woc_says_broadcast txid_object_body_def quoted_def remove_quotes_def strip_def
        sample_txid_def is_space_def)

text \<open>The check of the length is made by the two send operations, not by broadcast:
  after the answer \<^verbatim>\<open>yes\<close>, a returned value that is None or whose length is at most
  20 ends the operation with \<^verbatim>\<open>Broadcast failed.\<close>\<close>

lemma short_id_reported_failed:
  assumes "input_line w = Inr answer" and "lower answer = ''yes''"
    and "create_transaction w call = Inr raw_hex"
    and "snd (broadcast w raw_hex) = PNone
         \<or> (\<exists>n. py_len (snd (broadcast w raw_hex)) = Inr n \<and> n \<le> 20)"
  shows "(BuildTx call \<in> set (build_and_send w to_address amount_str) \<longrightarrow>
            last (build_and_send w to_address amount_str) = Say BroadcastFailed)
       \<and> (BuildTx call \<in> set (send_op_return w data_string) \<longrightarrow>
            last (send_op_return w data_string) = Say BroadcastFailed)"
  using assms
    shape_short [OF build_and_send_shape, of call w to_address amount_str raw_hex answer]
    shape_short [OF send_op_return_shape, of call w data_string raw_hex answer]
  by blast

text \<open>
  C5. Every path of broadcast but one returns a string (\<^verbatim>\<open>str(resp)\<close>, \<^verbatim>\<open>r.text\<close>, the
  stripped text), and both send operations take the length of what it returns. The
  path of a JSON object from TAAL returns the field as it is: for the body
  \<^verbatim>\<open>{"txid": 7}\<close> broadcast gives the integer 7, and the send operation ends in its
  exception handler (\<^verbatim>\<open>len\<close> of an integer raises) instead of reporting a broadcast
  failure. For the body \<^verbatim>\<open>7\<close>, on the sibling path, broadcast gives the string
  \<^verbatim>\<open>'7'\<close>, too short for a transaction id, and the operation ends with
  \<^verbatim>\<open>Broadcast failed.\<close>
\<close>

theorem object_field_returned_raw:
  "snd (broadcast taal_says_object_seven ''0100ff'') = PInt 7
   \<and> last (build_and_send taal_says_object_seven ''1Dest'' ''0.0005'')
       = Say (TransactionFailed TypeError)
   \<and> snd (broadcast taal_says_seven ''0100ff'') = PStr ''7''
   \<and> last (build_and_send taal_says_seven ''1Dest'' ''0.0005'') = Say BroadcastFailed"
proof -
  have f: "get_balance taal_says_seven = Inr 150000"
    "decimal_sats taal_says_seven ''0.0005'' = Inr 50000"
    "create_transaction taal_says_seven = (\<lambda>c. Inr ''0100ff'')"
    "input_line taal_says_seven = Inr ''yes''"
    "get_balance taal_says_object_seven = Inr 150000"
    "decimal_sats taal_says_object_seven ''0.0005'' = Inr 50000"
    "create_transaction taal_says_object_seven = (\<lambda>c. Inr ''0100ff'')"
    "input_line taal_says_object_seven = Inr ''yes''"
    by (simp_all add: taal_says_seven_def taal_says_object_seven_def taal_says_fields)
  have b7: "broadcast taal_says_seven ''0100ff''
            = ([Say BroadcastingViaTaal, PostTaal key1 ''0100ff''], PStr ''7'')"
    by (simp add: broadcast_def TAAL_KEYS_eq taal_says_seven_def taal_says_def
          taal_answer_def py_str_def)
  have bo: "broadcast taal_says_object_seven ''0100ff''
            = ([Say BroadcastingViaTaal, PostTaal key1 ''0100ff''], PInt 7)"
    by (simp add: taal_says_object_seven_def taal_says_broadcast taal_answer_def dict_get_def)
  have c7: "confirm_and_broadcast taal_says_seven ''0100ff'' TransactionSuccessful
            = ([AskConfirm, Say BroadcastingViaTaal, PostTaal key1 ''0100ff'',
                Say BroadcastFailed], None)"
    by (simp add: confirm_and_broadcast_def f lower_yes b7 looks_like_txid_def)
  have co: "confirm_and_broadcast taal_says_object_seven ''0100ff'' TransactionSuccessful
            = ([AskConfirm, Say BroadcastingViaTaal, PostTaal key1 ''0100ff''],
               Some TypeError)"
    by (simp add: confirm_and_broadcast_def f lower_yes bo looks_like_txid_def)
  have s7: "last (build_and_send taal_says_seven ''1Dest'' ''0.0005'') = Say BroadcastFailed"
    by (simp add: build_and_send_def get_balance_sats_def send_amount_def Let_def
          not_max_sample f c7 on_error_def)
  have so: "last (build_and_send taal_says_object_seven ''1Dest'' ''0.0005'')
            = Say (TransactionFailed TypeError)"
    by (simp add: build_and_send_def get_balance_sats_def send_amount_def Let_def
          not_max_sample f co on_error_def)
  from b7 bo s7 so show ?thesis by simp
qed

section \<open>The exchange rate in the status display\<close>

lemma get_json_events: "fst (get_json w endpoint) = [GetWoc endpoint]"
  by (simp add: get_json_def)

text \<open>
  C6, as the script has it. When the exchange-rate query fails or gives no data (the
  request raises, the status is an error, the body does not decode, or it decodes to
  an empty or null value), \<^verbatim>\<open>get_price\<close> returns the string \<^verbatim>\<open>'0.00'\<close>, and the status
  display shows the balance with a dollar value computed at the rate \<^verbatim>\<open>0.00\<close>; nothing
  says that the rate is missing. (The product of the balance and \<^verbatim>\<open>Decimal('0.00')\<close>
  raises nothing; the hypothesis on \<open>usd_value\<close> says so.)
\<close>

theorem missing_rate_defaults:
  assumes "\<not> truthy (snd (get_json w ''exchangerate''))"
  shows "snd (get_price w) = Inr (PStr ''0.00'')
       \<and> (get_balance w = Inr bal_sats \<and> usd_value w bal_sats (PStr ''0.00'') = None \<longrightarrow>
            show_status w = [Say WalletLine, QueryBalance, GetWoc ''exchangerate'',
                             Say (StatusLines bal_sats (PStr ''0.00''))])"
proof -
  from assms have p: "get_price w = ([GetWoc ''exchangerate''], Inr (PStr ''0.00''))"
    by (simp add: get_price_def case_prod_beta get_json_events)
  then show ?thesis
    by (simp add: show_status_def get_balance_sats_def)
qed

theorem missing_rate_defaults_witness:
  "\<not> truthy (snd (get_json (offline\<lparr>get_balance := Inr 150000\<rparr>) ''exchangerate''))
   \<and> snd (get_price (offline\<lparr>get_balance := Inr 150000\<rparr>)) = Inr (PStr ''0.00'')
   \<and> show_status (offline\<lparr>get_balance := Inr 150000\<rparr>)
       = [Say WalletLine, QueryBalance, GetWoc ''exchangerate'',
          Say (StatusLines 150000 (PStr ''0.00''))]"
proof -
  let ?w = "offline\<lparr>get_balance := Inr 150000\<rparr>"
  have h: "\<not> truthy (snd (get_json ?w ''exchangerate''))"
    by (simp add: get_json_def offline_def)
  have b: "get_balance ?w = Inr 150000 \<and> usd_value ?w 150000 (PStr ''0.00'') = None"
    by (simp add: offline_def)
  note t = missing_rate_defaults [OF h, of 150000]
  from t [THEN conjunct1] t [THEN conjunct2, rule_format, OF b] h
  show ?thesis by simp
qed

text \<open>
  C6 as it is stated fails: with the rate query timing out, the price returned is
  \<^verbatim>\<open>'0.00'\<close> and the status lines are printed with it.
\<close>

theorem failed_rate_shown_as_zero:
  "get_woc (offline\<lparr>get_balance := Inr 150000\<rparr>) ''exchangerate''
     = RequestRaises (LibraryError ''Timeout'')
   \<and> snd (get_price (offline\<lparr>get_balance := Inr 150000\<rparr>)) = Inr (PStr ''0.00'')
   \<and> show_status (offline\<lparr>get_balance := Inr 150000\<rparr>)
       = [Say WalletLine, QueryBalance, GetWoc ''exchangerate'',
          Say (StatusLines 150000 (PStr ''0.00''))]"
  by (simp add: show_status_def get_balance_sats_def get_price_def get_json_def offline_def)

section \<open>The fee estimate of a data transaction\<close>

lemma half_ceiling: "of_int \<lceil>(of_nat n :: rat) * (1 / 2)\<rceil> = (of_nat ((n + 1) div 2) :: rat)"
proof -
  have "\<lceil>(of_nat n :: rat) * (1 / 2)\<rceil> = int ((n + 1) div 2)"
  proof (rule ceiling_unique)
    show "of_int (int ((n + 1) div 2)) - 1 < (of_nat n :: rat) * (1 / 2)"
    proof (cases "even n")
      case True
      then obtain k where "n = 2 * k" by (elim evenE)
      then show ?thesis by simp
    next
      case False
      then obtain k where "n = 2 * k + 1" by (elim oddE)
      then show ?thesis by (simp add: field_simps)
    qed
    show "(of_nat n :: rat) * (1 / 2) \<le> of_int (int ((n + 1) div 2))"
    proof (cases "even n")
      case True
      then obtain k where "n = 2 * k" by (elim evenE)
      then show ?thesis by simp
    next
      case False
      then obtain k where "n = 2 * k + 1" by (elim oddE)
      then show ?thesis by (simp add: field_simps)
    qed
  qed
  then show ?thesis by simp
qed

text \<open>
  C7, as the script has it. In the data-only path, for a built transaction of
  \<open>size_bytes\<close> bytes (below \<open>2^53\<close>, where the float product is exact), the estimate
  shown is \<open>size_bytes * 0.5\<close>, not rounded up: it equals \<open>ceil(size_bytes * 0.5)\<close>
  exactly when the size is even, and is half a satoshi less when the size is odd.
\<close>

theorem data_fee_not_rounded:
  assumes "get_balance w = Inr bal" and "\<not> bal < 1000"
    and "create_transaction w (DataTx data_string) = Inr raw_hex"
    and "size_bytes = length raw_hex div 2" and "size_bytes < 2 ^ 53"
  shows "Say (DataSummary data_string size_bytes (of_nat size_bytes / 2))
           \<in> set (send_op_return w data_string)
       \<and> (data_fee_shown size_bytes = of_int \<lceil>of_nat size_bytes * (1 / 2 :: rat)\<rceil>)
           = even size_bytes
       \<and> (odd size_bytes \<longrightarrow>
            of_int \<lceil>of_nat size_bytes * (1 / 2 :: rat)\<rceil> - data_fee_shown size_bytes = 1 / 2)"
proof (intro conjI impI)
  from assms(1-4)
  show "Say (DataSummary data_string size_bytes (of_nat size_bytes / 2))
           \<in> set (send_op_return w data_string)"
    by (simp add: send_op_return_def get_balance_sats_def Let_def case_prod_beta
          data_fee_shown_def)
next
  show "(data_fee_shown size_bytes = of_int \<lceil>of_nat size_bytes * (1 / 2 :: rat)\<rceil>)
           = even size_bytes"
    unfolding half_ceiling data_fee_shown_def
  proof (cases "even size_bytes")
    case True
    then obtain k where "size_bytes = 2 * k" by (elim evenE)
    then show "((of_nat size_bytes :: rat) * (1 / 2) = of_nat ((size_bytes + 1) div 2))
               = even size_bytes"
      by simp
  next
    case False
    then obtain k where "size_bytes = 2 * k + 1" by (elim oddE)
    then show "((of_nat size_bytes :: rat) * (1 / 2) = of_nat ((size_bytes + 1) div 2))
               = even size_bytes"
      by (simp add: field_simps)
  qed
next
  assume "odd size_bytes"
  then obtain k where "size_bytes = 2 * k + 1" by (elim oddE)
  then show "of_int \<lceil>of_nat size_bytes * (1 / 2 :: rat)\<rceil> - data_fee_shown size_bytes = 1 / 2"
    unfolding half_ceiling data_fee_shown_def by (simp add: field_simps)
qed

theorem data_fee_not_rounded_witness:
  "Say (DataSummary ''hello'' 3 (3 / 2)) \<in> set (send_op_return online ''hello'')
   \<and> data_fee_shown 3 \<noteq> of_int \<lceil>of_nat 3 * (1 / 2 :: rat)\<rceil>
   \<and> of_int \<lceil>of_nat 3 * (1 / 2 :: rat)\<rceil> - data_fee_shown 3 = 1 / 2"
proof -
  have h: "get_balance online = Inr 150000" "\<not> (150000 :: int) < 1000"
    "create_transaction online (DataTx ''hello'') = Inr ''0100ff''"
    "(3 :: nat) = length ''0100ff'' div 2" "(3 :: nat) < 2 ^ 53"
    by (simp_all add: online_def)
  from data_fee_not_rounded [OF h] show ?thesis by simp
qed

text \<open>
  C7 as it is stated fails: a data transaction of 3 bytes is shown with an estimate of
  1.5 satoshis, where \<open>ceil(3 * 0.5)\<close> is 2.
\<close>

theorem data_fee_shown_fractional:
  "Say (DataSummary ''hello'' 3 (3 / 2)) \<in> set (send_op_return online ''hello'')
   \<and> \<lceil>(3 :: rat) * (1 / 2)\<rceil> = 2"
proof -
  have "\<lceil>(3 :: rat) * (1 / 2)\<rceil> = 2"
    by (rule ceiling_unique) simp_all
  then show ?thesis
    by (simp add: send_op_return_def get_balance_sats_def Let_def case_prod_beta
          data_fee_shown_def online_def)
qed

section \<open>MAX: the whole balance\<close>


lemma sample_txid_long: "looks_like_txid (PStr sample_txid) = Inr True"
  by (simp add: looks_like_txid_def sample_txid_def)


section \<open>The requested amount and the precision of Decimal\<close>

lemma rounded_amount:
  "sats_of_decimal \<lparr>negative = False, coefficient = 10000000499, exponent = - 8\<rparr>
   = Inr 10000000000"
  by (simp add: sats_of_decimal_def times_100000000_def prec8_def round_half_even_def
        int_of_decimal_def num_digits.simps)

lemma not_max_rounded: "\<not> is_max ''100.00000499''"
  by (simp add: is_max_def lower_def lower_char_def)

lemma rounding_world_amount:
  "decimal_sats rounding_world ''100.00000499'' = Inr 10000000000"
  by (simp add: rounding_world_def rounded_amount)

lemma rounding_world_fields:
  "get_balance rounding_world = Inr 10000000200"
  "create_transaction rounding_world = (\<lambda>c. Inr ''0100ff'')"
  "input_line rounding_world = Inr ''yes''"
  by (simp_all add: rounding_world_def online_def)

lemma rounding_world_broadcast:
  "broadcast rounding_world ''0100ff''
   = ([Say BroadcastingViaTaal, PostTaal key1 ''0100ff'', PostTaal key2 ''0100ff''],
      PStr sample_txid)"
  by (simp add: broadcast_def TAAL_KEYS_eq rounding_world_def online_def key1_neq_key2
        taal_answer_def taal_ok_def dict_get_def)

text \<open>
  C1. The script means to stop a request that the funds do not cover (the check at
  line 230), but it compares the balance with the product \<^verbatim>\<open>Decimal(amount_str) *
  100_000_000\<close>, which the precision of 8 rounds to eight significant digits. With a
  balance of 10000000200 satoshis, the request for 100.00000499 BSV (10000000499
  satoshis, more than the balance) becomes 10000000000 satoshis: no lack of funds is
  reported, the builder is asked for 10000000000, and the operation goes on to the
  prompt and the broadcast with funds below the requested amount.
\<close>

theorem send_rounds_requested_amount:
  "get_balance rounding_world = Inr 10000000200
   \<and> decimal_sats rounding_world ''100.00000499'' = Inr 10000000000
   \<and> build_and_send rounding_world ''1Dest'' ''100.00000499''
       = [Say Preparing, QueryBalance, BuildTx (PaymentTx ''1Dest'' 10000000000 None),
          Say (TxSummary ''1Dest'' 10000000000 3), AskConfirm, Say BroadcastingViaTaal,
          PostTaal key1 ''0100ff'', PostTaal key2 ''0100ff'',
          Say (TransactionSuccessful (PStr sample_txid))]"
proof -
  have c: "confirm_and_broadcast rounding_world ''0100ff'' TransactionSuccessful
           = ([AskConfirm, Say BroadcastingViaTaal, PostTaal key1 ''0100ff'',
               PostTaal key2 ''0100ff'', Say (TransactionSuccessful (PStr sample_txid))], None)"
    by (simp add: confirm_and_broadcast_def rounding_world_fields lower_yes
          rounding_world_broadcast sample_txid_long)
  have "build_and_send rounding_world ''1Dest'' ''100.00000499''
       = [Say Preparing, QueryBalance, BuildTx (PaymentTx ''1Dest'' 10000000000 None),
          Say (TxSummary ''1Dest'' 10000000000 3), AskConfirm, Say BroadcastingViaTaal,
          PostTaal key1 ''0100ff'', PostTaal key2 ''0100ff'',
          Say (TransactionSuccessful (PStr sample_txid))]"
    by (simp add: build_and_send_def get_balance_sats_def send_amount_def Let_def
          not_max_rounded rounding_world_amount rounding_world_fields c on_error_def)
  with rounding_world_amount rounding_world_fields(1) show ?thesis by simp
qed

end
